theory Spec2Isabelle
  imports Complex_Main
begin

section \<open>Python numbers\<close>

text \<open>
  The dashboard computes with Python \<open>float\<close> (IEEE 754 binary64) and \<open>int\<close> values read from
  nested dictionaries. A finite float is represented by the rational number it denotes; the
  result of an arithmetic operation is the exact result rounded to the nearest binary64 value,
  ties to even. The two zeros \<open>0.0\<close> and \<open>-0.0\<close> are identified: no operation of the
  dashboard distinguishes them (Python raises on every division by either).
\<close>

datatype py_error = KeyError | ZeroDivisionError | OverflowError | ValueError

definition py_bind :: "py_error + 'a \<Rightarrow> ('a \<Rightarrow> py_error + 'b) \<Rightarrow> py_error + 'b" where
  "py_bind m f = (case m of Inl e \<Rightarrow> Inl e | Inr v \<Rightarrow> f v)"

text \<open>A binary operator: the left operand is evaluated first, then the right one, then the
  operation; the first exception wins.\<close>

definition py_binop ::
  "('a \<Rightarrow> 'b \<Rightarrow> py_error + 'c) \<Rightarrow> py_error + 'a \<Rightarrow> py_error + 'b \<Rightarrow> py_error + 'c" where
  "py_binop f x y = py_bind x (\<lambda>a. py_bind y (\<lambda>b. f a b))"

subsection \<open>Rounding to binary64\<close>

fun bit_length :: "nat \<Rightarrow> nat" where
  "bit_length n = (if n = 0 then 0 else Suc (bit_length (n div 2)))"

declare bit_length.simps [simp del]

text \<open>\<open>ilog2 x\<close> is the binary exponent of a positive rational: \<open>2 ^ ilog2 x \<le> x < 2 ^ (ilog2 x + 1)\<close>.\<close>

definition ilog2 :: "rat \<Rightarrow> int" where
  "ilog2 x = (if 1 \<le> x then int (bit_length (nat \<lfloor>x\<rfloor>)) - 1
              else - int (bit_length (nat (\<lceil>1 / x\<rceil> - 1))))"

definition round_half_even :: "rat \<Rightarrow> int" where
  "round_half_even y =
     (let f = \<lfloor>y\<rfloor>; r = y - of_int f
      in if r < 1 / 2 then f else if 1 / 2 < r then f + 1
         else if even f then f else f + 1)"

text \<open>The spacing of binary64 values around \<open>x\<close>: 53 significant bits, and \<open>2 ^ - 1074\<close>
  in the subnormal range.\<close>

definition ulp_exponent :: "rat \<Rightarrow> int" where
  "ulp_exponent x = max (ilog2 \<bar>x\<bar> - 52) (- 1074)"

definition round_binary64 :: "rat \<Rightarrow> rat" where
  "round_binary64 x =
     (if x = 0 then 0
      else sgn x * of_int (round_half_even (\<bar>x\<bar> / 2 powi ulp_exponent x)) * 2 powi ulp_exponent x)"

datatype pyfloat = Finite rat | PosInf | NegInf | NaN

text \<open>The float for an exact result: rounded, and an infinity once the rounded magnitude
  reaches \<open>2 ^ 1024\<close>.\<close>

definition to_float :: "rat \<Rightarrow> pyfloat" where
  "to_float x =
     (let r = round_binary64 x
      in if 2 ^ 1024 \<le> r then PosInf else if r \<le> - (2 ^ 1024) then NegInf else Finite r)"

text \<open>A decimal literal of the source, such as \<open>9.2\<close>, denotes the nearest float.\<close>

definition float_lit :: "rat \<Rightarrow> pyfloat" where
  "float_lit q = to_float q"

subsection \<open>Float arithmetic\<close>

fun fneg :: "pyfloat \<Rightarrow> pyfloat" where
  "fneg (Finite a) = Finite (- a)"
| "fneg PosInf = NegInf"
| "fneg NegInf = PosInf"
| "fneg NaN = NaN"

fun fadd :: "pyfloat \<Rightarrow> pyfloat \<Rightarrow> pyfloat" where
  "fadd (Finite a) (Finite b) = to_float (a + b)"
| "fadd NaN _ = NaN"
| "fadd _ NaN = NaN"
| "fadd PosInf NegInf = NaN"
| "fadd NegInf PosInf = NaN"
| "fadd PosInf _ = PosInf"
| "fadd _ PosInf = PosInf"
| "fadd NegInf _ = NegInf"
| "fadd _ NegInf = NegInf"

definition fsub :: "pyfloat \<Rightarrow> pyfloat \<Rightarrow> pyfloat" where
  "fsub a b = fadd a (fneg b)"

definition signed_inf :: "bool \<Rightarrow> pyfloat" where
  "signed_inf positive = (if positive then PosInf else NegInf)"

fun fmul :: "pyfloat \<Rightarrow> pyfloat \<Rightarrow> pyfloat" where
  "fmul (Finite a) (Finite b) = to_float (a * b)"
| "fmul NaN _ = NaN"
| "fmul _ NaN = NaN"
| "fmul PosInf (Finite b) = (if b = 0 then NaN else signed_inf (0 < b))"
| "fmul NegInf (Finite b) = (if b = 0 then NaN else signed_inf (b < 0))"
| "fmul (Finite a) PosInf = (if a = 0 then NaN else signed_inf (0 < a))"
| "fmul (Finite a) NegInf = (if a = 0 then NaN else signed_inf (a < 0))"
| "fmul PosInf PosInf = PosInf"
| "fmul NegInf NegInf = PosInf"
| "fmul PosInf NegInf = NegInf"
| "fmul NegInf PosInf = NegInf"

text \<open>Python's float division raises on a zero divisor before anything else is looked at.\<close>

fun fdiv :: "pyfloat \<Rightarrow> pyfloat \<Rightarrow> py_error + pyfloat" where
  "fdiv a (Finite b) =
     (if b = 0 then Inl ZeroDivisionError
      else case a of
             Finite x \<Rightarrow> Inr (to_float (x / b))
           | PosInf \<Rightarrow> Inr (signed_inf (0 < b))
           | NegInf \<Rightarrow> Inr (signed_inf (b < 0))
           | NaN \<Rightarrow> Inr NaN)"
| "fdiv NaN _ = Inr NaN"
| "fdiv _ NaN = Inr NaN"
| "fdiv (Finite a) _ = Inr (Finite 0)"
| "fdiv _ _ = Inr NaN"

subsection \<open>The numeric tower: int and float operands\<close>

datatype pynum = PyInt int | PyFloat pyfloat

text \<open>Converting an int to a float rounds it, and raises OverflowError when it is too large.\<close>

definition float_of_int :: "int \<Rightarrow> py_error + pyfloat" where
  "float_of_int n =
     (case to_float (of_int n) of Finite r \<Rightarrow> Inr (Finite r) | _ \<Rightarrow> Inl OverflowError)"

fun as_float :: "pynum \<Rightarrow> py_error + pyfloat" where
  "as_float (PyInt n) = float_of_int n"
| "as_float (PyFloat f) = Inr f"

fun py_mul :: "pynum \<Rightarrow> pynum \<Rightarrow> py_error + pynum" where
  "py_mul (PyInt a) (PyInt b) = Inr (PyInt (a * b))"
| "py_mul x y = py_binop (\<lambda>a b. Inr (PyFloat (fmul a b))) (as_float x) (as_float y)"

fun py_add :: "pynum \<Rightarrow> pynum \<Rightarrow> py_error + pynum" where
  "py_add (PyInt a) (PyInt b) = Inr (PyInt (a + b))"
| "py_add x y = py_binop (\<lambda>a b. Inr (PyFloat (fadd a b))) (as_float x) (as_float y)"

fun py_sub :: "pynum \<Rightarrow> pynum \<Rightarrow> py_error + pynum" where
  "py_sub (PyInt a) (PyInt b) = Inr (PyInt (a - b))"
| "py_sub x y = py_binop (\<lambda>a b. Inr (PyFloat (fsub a b))) (as_float x) (as_float y)"

text \<open>True division \<open>/\<close> always yields a float; of two ints it is the correctly rounded
  quotient.\<close>

fun py_truediv :: "pynum \<Rightarrow> pynum \<Rightarrow> py_error + pynum" where
  "py_truediv (PyInt a) (PyInt b) =
     (if b = 0 then Inl ZeroDivisionError
      else case to_float (of_int a / of_int b) of
             Finite r \<Rightarrow> Inr (PyFloat (Finite r))
           | _ \<Rightarrow> Inl OverflowError)"
| "py_truediv x y =
     py_binop (\<lambda>a b. py_bind (fdiv a b) (\<lambda>q. Inr (PyFloat q))) (as_float x) (as_float y)"

subsection \<open>Comparison, \<open>max\<close> and \<open>sum\<close>\<close>

text \<open>Python compares an int with a float exactly, with no rounding of the int; every
  comparison with NaN is false.\<close>

fun exact_value :: "pynum \<Rightarrow> pyfloat" where
  "exact_value (PyInt n) = Finite (of_int n)"
| "exact_value (PyFloat f) = f"

fun fgt :: "pyfloat \<Rightarrow> pyfloat \<Rightarrow> bool" where
  "fgt (Finite a) (Finite b) = (b < a)"
| "fgt NaN _ = False"
| "fgt _ NaN = False"
| "fgt NegInf _ = False"
| "fgt _ PosInf = False"
| "fgt _ _ = True"

definition py_gt :: "pynum \<Rightarrow> pynum \<Rightarrow> bool" where
  "py_gt x y = fgt (exact_value x) (exact_value y)"

text \<open>\<open>max\<close> keeps the first item and replaces it by each later item that is greater.\<close>

fun pymax :: "pynum list \<Rightarrow> py_error + pynum" where
  "pymax [] = Inl ValueError"
| "pymax (x # xs) = Inr (foldl (\<lambda>m v. if py_gt v m then v else m) x xs)"

text \<open>A list comprehension: the items are computed in order and the first exception ends
  it.\<close>

fun py_map :: "('a \<Rightarrow> py_error + 'b) \<Rightarrow> 'a list \<Rightarrow> py_error + 'b list" where
  "py_map f [] = Inr []"
| "py_map f (x # xs) = py_bind (f x) (\<lambda>y. py_bind (py_map f xs) (\<lambda>ys. Inr (y # ys)))"

subsection \<open>Formatting in f-strings\<close>

text \<open>
  The pages format numbers in three ways: plainly (\<open>f"{x}"\<close>), with two or one decimals
  (\<open>:.2f\<close>, \<open>:.1f\<close>) and with thousands separators (\<open>:,\<close>). The text produced is not
  modelled, only whether formatting raises. A float is always formatted. An int is
  converted to a float for the decimals, which raises OverflowError when it is too large;
  otherwise it is written in decimal, which raises ValueError (Python 3.11 and later) when
  it has more than 4300 digits.
\<close>

datatype format_spec = Plain | Fixed | Grouped

definition max_str_digits :: nat where
  "max_str_digits = 4300"

fun py_format :: "format_spec \<Rightarrow> pynum \<Rightarrow> py_error + unit" where
  "py_format spec (PyFloat f) = Inr ()"
| "py_format Fixed (PyInt n) = py_bind (float_of_int n) (\<lambda>_. Inr ())"
| "py_format spec (PyInt n) = (if 10 ^ max_str_digits \<le> \<bar>n\<bar> then Inl ValueError else Inr ())"

declare py_format.simps [simp del]

section \<open>The static dataset\<close>

text \<open>Dictionaries are association lists in the order of the source's literals, none of
  which repeats a key; a missing key raises KeyError.\<close>

type_synonym 'v pydict = "(string \<times> 'v) list"

definition getitem :: "'v pydict \<Rightarrow> string \<Rightarrow> py_error + 'v" where
  "getitem d k = (case map_of d k of None \<Rightarrow> Inl KeyError | Some v \<Rightarrow> Inr v)"

type_synonym metrics = "pynum pydict"
type_synonym book_data = "metrics pydict"
type_synonym books = "book_data pydict"

definition fl :: "rat \<Rightarrow> pynum" where
  "fl q = PyFloat (float_lit q)"

definition load_advanced_data :: books where
  "load_advanced_data =
   [(''Coran'',
     [(''structural_analysis'',
       [(''avg_verse_length'', fl (256 / 10)),
        (''vocabulary_richness'', fl (85 / 100)),
        (''repetition_rate'', fl (123 / 10)),
        (''rhythmic_patterns'', PyInt 94),
        (''thematic_cohesion'', fl (92 / 10))]),
      (''linguistic_features'',
       [(''unique_words'', PyInt 14870),
        (''root_words'', PyInt 1726),
        (''grammatical_complexity'', fl (87 / 10)),
        (''semantic_density'', fl (91 / 10)),
        (''oral_preservation'', fl (999 / 10))]),
      (''historical_impact'',
       [(''manuscripts_earliest'', PyInt 642),
        (''translations_timeline'', PyInt 112),
        (''academic_studies'', PyInt 125000),
        (''cultural_references'', PyInt 890000),
        (''legal_influence'', fl (95 / 10))])]),
    (''Torah'',
     [(''structural_analysis'',
       [(''avg_verse_length'', fl (183 / 10)),
        (''vocabulary_richness'', fl (78 / 100)),
        (''repetition_rate'', fl (87 / 10)),
        (''rhythmic_patterns'', PyInt 45),
        (''thematic_cohesion'', fl (88 / 10))]),
      (''linguistic_features'',
       [(''unique_words'', PyInt 8920),
        (''root_words'', PyInt 1850),
        (''grammatical_complexity'', fl (79 / 10)),
        (''semantic_density'', fl (84 / 10)),
        (''oral_preservation'', fl (952 / 10))]),
      (''historical_impact'',
       [(''manuscripts_earliest'', PyInt (- 250)),
        (''translations_timeline'', PyInt 25),
        (''academic_studies'', PyInt 89000),
        (''cultural_references'', PyInt 450000),
        (''legal_influence'', fl (98 / 10))])]),
    (''Bible'',
     [(''structural_analysis'',
       [(''avg_verse_length'', fl (221 / 10)),
        (''vocabulary_richness'', fl (92 / 100)),
        (''repetition_rate'', fl (158 / 10)),
        (''rhythmic_patterns'', PyInt 67),
        (''thematic_cohesion'', fl (85 / 10))]),
      (''linguistic_features'',
       [(''unique_words'', PyInt 12850),
        (''root_words'', PyInt 4200),
        (''grammatical_complexity'', fl (82 / 10)),
        (''semantic_density'', fl (88 / 10)),
        (''oral_preservation'', fl (978 / 10))]),
      (''historical_impact'',
       [(''manuscripts_earliest'', PyInt 125),
        (''translations_timeline'', PyInt 1382),
        (''academic_studies'', PyInt 450000),
        (''cultural_references'', PyInt 2500000),
        (''legal_influence'', fl (92 / 10))])])]"

definition book_names :: "string list" where
  "book_names = [''Coran'', ''Torah'', ''Bible'']"

section \<open>Derived scores\<close>

abbreviation mul_e :: "py_error + pynum \<Rightarrow> py_error + pynum \<Rightarrow> py_error + pynum" where
  "mul_e \<equiv> py_binop py_mul"

abbreviation add_e :: "py_error + pynum \<Rightarrow> py_error + pynum \<Rightarrow> py_error + pynum" where
  "add_e \<equiv> py_binop py_add"

abbreviation sub_e :: "py_error + pynum \<Rightarrow> py_error + pynum \<Rightarrow> py_error + pynum" where
  "sub_e \<equiv> py_binop py_sub"

abbreviation div_e :: "py_error + pynum \<Rightarrow> py_error + pynum \<Rightarrow> py_error + pynum" where
  "div_e \<equiv> py_binop py_truediv"

abbreviation flt :: "rat \<Rightarrow> py_error + pynum" where
  "flt q \<equiv> Inr (fl q)"

abbreviation num :: "int \<Rightarrow> py_error + pynum" where
  "num n \<equiv> Inr (PyInt n)"

text \<open>The composite score of \<open>create_advanced_metrics_dashboard\<close>, over the three metric
  dictionaries of the selected book.\<close>

definition composite_score :: "metrics \<Rightarrow> metrics \<Rightarrow> metrics \<Rightarrow> py_error + pynum" where
  "composite_score structural linguistic historical =
     add_e
       (add_e
          (add_e
             (mul_e (getitem structural ''thematic_cohesion'') (flt (2 / 10)))
             (mul_e (getitem linguistic ''semantic_density'') (flt (25 / 100))))
          (mul_e (getitem historical ''legal_influence'') (flt (3 / 10))))
       (mul_e (div_e (getitem linguistic ''oral_preservation'') (num 10)) (flt (25 / 100)))"

text \<open>The composite score of a book record: the three metric dictionaries of the record,
  then the expression.\<close>

definition record_composite_score :: "book_data \<Rightarrow> py_error + pynum" where
  "record_composite_score book_data =
     py_bind (getitem book_data ''structural_analysis'') (\<lambda>structural.
     py_bind (getitem book_data ''linguistic_features'') (\<lambda>linguistic.
     py_bind (getitem book_data ''historical_impact'') (\<lambda>historical.
       composite_score structural linguistic historical)))"

text \<open>The complexity index of \<open>create_structural_analysis\<close>, over a book's structural
  metrics.\<close>

definition complexity_score :: "metrics \<Rightarrow> py_error + pynum" where
  "complexity_score data =
     div_e
       (add_e
          (add_e
             (add_e
                (mul_e (getitem data ''vocabulary_richness'') (num 30))
                (mul_e (getitem data ''thematic_cohesion'') (num 25)))
             (mul_e (sub_e (num 100) (getitem data ''repetition_rate'')) (num 20)))
          (mul_e (getitem data ''rhythmic_patterns'') (flt (25 / 100))))
       (num 100)"

text \<open>\<open>self.books_data[book][section][field]\<close>\<close>

definition metric_of :: "books \<Rightarrow> string \<Rightarrow> string \<Rightarrow> string \<Rightarrow> py_error + pynum" where
  "metric_of bs book section field =
     py_bind (getitem bs book) (\<lambda>book_data.
     py_bind (getitem book_data section) (\<lambda>data. getitem data field))"

text \<open>The radar chart of \<open>create_structural_analysis\<close>: for one book, each structural metric
  divided by the largest value of that metric among the three books, times 100.\<close>

definition structural_metrics :: "string list" where
  "structural_metrics =
     [''avg_verse_length'', ''vocabulary_richness'', ''repetition_rate'',
      ''rhythmic_patterns'', ''thematic_cohesion'']"

text \<open>The values of one metric in the three books, in the order of the books.\<close>

definition column_of :: "books \<Rightarrow> string \<Rightarrow> py_error + pynum list" where
  "column_of bs m = py_map (\<lambda>b. metric_of bs b ''structural_analysis'' m) book_names"

definition max_vals :: "books \<Rightarrow> py_error + pynum list" where
  "max_vals bs = py_map (\<lambda>m. py_bind (column_of bs m) pymax) structural_metrics"

definition normalized :: "books \<Rightarrow> string \<Rightarrow> py_error + pynum list" where
  "normalized bs book =
     py_bind (py_map (\<lambda>metric. metric_of bs book ''structural_analysis'' metric) structural_metrics)
       (\<lambda>values.
     py_bind (max_vals bs) (\<lambda>max_vs.
     py_map (\<lambda>(v, max_v). mul_e (div_e (Inr v) (Inr max_v)) (num 100)) (zip values max_vs)))"

section \<open>The dashboard object and its methods\<close>

text \<open>
  The object keeps the dataset in its attribute \<open>books_data\<close>. Each method is a function from
  the object to what the method computes for display and the object after the call. The
  attributes \<open>thematic_data\<close>, \<open>linguistic_data\<close> and \<open>historical_data\<close> hold separate tables
  that share nothing with \<open>books_data\<close>; they and the figures drawn from them are left out.
\<close>

record analysis =
  books_data :: books

definition init :: analysis where
  "init = \<lparr>books_data = load_advanced_data\<rparr>"

text \<open>\<open>sum\<close> starts from the int 0 and adds the items from left to right. (From Python 3.12
  on, a sum of floats also carries a correction term for the rounding errors; the header's
  figures are shown with one decimal and no property below depends on their last bit.)\<close>

definition py_sum :: "pynum list \<Rightarrow> py_error + pynum" where
  "py_sum xs = foldl (\<lambda>acc x. add_e acc (Inr x)) (num 0) xs"

definition section_total :: "books \<Rightarrow> string \<Rightarrow> string \<Rightarrow> py_error + pynum" where
  "section_total bs section field =
     py_bind (py_map (\<lambda>book. metric_of bs book section field) book_names) py_sum"

text \<open>The header shows the mean oral preservation, the mean legal influence and the number of
  academic studies in thousands. Each figure is the result of a division, hence a float, and
  formatting it (\<open>:.1f\<close>, \<open>:.0f\<close>) cannot raise.\<close>

definition create_advanced_header :: "analysis \<Rightarrow> (py_error + pynum list) \<times> analysis" where
  "create_advanced_header self =
     (py_map (\<lambda>x. x)
        [div_e (section_total (books_data self) ''linguistic_features'' ''oral_preservation'') (num 3),
         div_e (section_total (books_data self) ''historical_impact'' ''legal_influence'') (num 3),
         div_e (section_total (books_data self) ''historical_impact'' ''academic_studies'') (num 1000)],
      self)"

definition book_complexity_score :: "books \<Rightarrow> string \<Rightarrow> py_error + pynum" where
  "book_complexity_score bs book =
     py_bind (getitem bs book) (\<lambda>book_data.
     py_bind (getitem book_data ''structural_analysis'') (\<lambda>data.
       complexity_score data))"

text \<open>The structure page: the radar values of the three books, then their complexity indices.\<close>

definition create_structural_analysis ::
  "analysis \<Rightarrow> (py_error + pynum list list \<times> pynum list) \<times> analysis" where
  "create_structural_analysis self =
     (py_bind (py_map (normalized (books_data self)) book_names) (\<lambda>radar.
      py_bind (py_map (book_complexity_score (books_data self)) book_names) (\<lambda>complexity_data.
        Inr (radar, complexity_data))),
      self)"

text \<open>Showing fields of a metric dictionary: each is looked up and formatted in turn.\<close>

definition show_fields :: "metrics \<Rightarrow> (string \<times> format_spec) list \<Rightarrow> py_error + unit list" where
  "show_fields data shown =
     py_map (\<lambda>(field, spec). py_bind (getitem data field) (py_format spec)) shown"

text \<open>The linguistics page shows, for each book, three structural and five linguistic fields
  and the mean of its semantic density and grammatical complexity, with one decimal.\<close>

definition linguistic_complexity :: "books \<Rightarrow> string \<Rightarrow> py_error + pynum" where
  "linguistic_complexity bs book =
     py_bind (getitem bs book) (\<lambda>book_data.
     py_bind (getitem book_data ''structural_analysis'') (\<lambda>data.
     py_bind (show_fields data
                [(''avg_verse_length'', Plain), (''vocabulary_richness'', Fixed),
                 (''thematic_cohesion'', Plain)]) (\<lambda>_.
     py_bind (getitem bs book) (\<lambda>book_data.
     py_bind (getitem book_data ''linguistic_features'') (\<lambda>data.
     py_bind (show_fields data
                [(''unique_words'', Grouped), (''root_words'', Plain),
                 (''oral_preservation'', Plain), (''semantic_density'', Plain),
                 (''grammatical_complexity'', Plain)]) (\<lambda>_.
     py_bind (div_e (add_e (getitem data ''semantic_density'')
                           (getitem data ''grammatical_complexity'')) (num 2))
       (\<lambda>complexity_score.
     py_bind (py_format Fixed complexity_score) (\<lambda>_. Inr complexity_score))))))))"

definition create_linguistic_analysis :: "analysis \<Rightarrow> (py_error + pynum list) \<times> analysis" where
  "create_linguistic_analysis self =
     (py_map (linguistic_complexity (books_data self)) book_names, self)"

text \<open>The overview page: the fifteen fields of the selected book are looked up and formatted
  for display, in the order of the three columns; then the composite score is computed and
  formatted with one decimal. Nothing is shown when no book is selected.\<close>

definition structural_display :: "(string \<times> format_spec) list" where
  "structural_display =
     [(''avg_verse_length'', Plain), (''vocabulary_richness'', Fixed),
      (''repetition_rate'', Plain), (''rhythmic_patterns'', Plain),
      (''thematic_cohesion'', Plain)]"

definition linguistic_display :: "(string \<times> format_spec) list" where
  "linguistic_display =
     [(''unique_words'', Grouped), (''root_words'', Plain),
      (''grammatical_complexity'', Plain), (''semantic_density'', Plain),
      (''oral_preservation'', Plain)]"

definition historical_display :: "(string \<times> format_spec) list" where
  "historical_display =
     [(''manuscripts_earliest'', Plain), (''translations_timeline'', Plain),
      (''academic_studies'', Grouped), (''cultural_references'', Grouped),
      (''legal_influence'', Plain)]"

definition create_advanced_metrics_dashboard ::
  "analysis \<Rightarrow> string \<Rightarrow> (py_error + pynum option) \<times> analysis" where
  "create_advanced_metrics_dashboard self selected_book =
     (if selected_book = [] then Inr None
      else
        py_bind (getitem (books_data self) selected_book) (\<lambda>book_data.
        py_bind (getitem book_data ''structural_analysis'') (\<lambda>structural.
        py_bind (show_fields structural structural_display) (\<lambda>_.
        py_bind (getitem book_data ''linguistic_features'') (\<lambda>linguistic.
        py_bind (show_fields linguistic linguistic_display) (\<lambda>_.
        py_bind (getitem book_data ''historical_impact'') (\<lambda>historical.
        py_bind (show_fields historical historical_display) (\<lambda>_.
        py_bind (composite_score structural linguistic historical) (\<lambda>score.
        py_bind (py_format Fixed score) (\<lambda>_.
          Inr (Some score)))))))))),
      self)"

text \<open>One run of the dashboard: the header, then the page chosen in the sidebar. The pages on
  themes, history and insights draw from the other tables only.\<close>

datatype analysis_type = Overview | Structure | Linguistics | Themes | History | Insights

datatype page =
    Overview_page "pynum option"
  | Structure_page "pynum list list" "pynum list"
  | Linguistics_page "pynum list"
  | Other_page

definition show_page ::
  "analysis \<Rightarrow> analysis_type \<Rightarrow> string \<Rightarrow> (py_error + page) \<times> analysis" where
  "show_page self t selected_book =
     (case t of
        Overview \<Rightarrow>
          (case create_advanced_metrics_dashboard self selected_book of
             (r, self') \<Rightarrow> (py_bind r (\<lambda>v. Inr (Overview_page v)), self'))
      | Structure \<Rightarrow>
          (case create_structural_analysis self of
             (r, self') \<Rightarrow> (py_bind r (\<lambda>(radar, cs). Inr (Structure_page radar cs)), self'))
      | Linguistics \<Rightarrow>
          (case create_linguistic_analysis self of
             (r, self') \<Rightarrow> (py_bind r (\<lambda>v. Inr (Linguistics_page v)), self'))
      | _ \<Rightarrow> (Inr Other_page, self))"

definition run_advanced_dashboard ::
  "analysis \<Rightarrow> analysis_type \<Rightarrow> string \<Rightarrow> (py_error + pynum list \<times> page) \<times> analysis" where
  "run_advanced_dashboard self t selected_book =
     (case create_advanced_header self of
        (Inl e, self') \<Rightarrow> (Inl e, self')
      | (Inr header, self') \<Rightarrow>
          (case show_page self' t selected_book of
             (r, self'') \<Rightarrow> (py_bind r (\<lambda>p. Inr (header, p)), self'')))"

section \<open>The documented scoring model\<close>

text \<open>A book record supplies the five structural, five linguistic and five historical
  fields.\<close>

definition structural_fields :: "string list" where
  "structural_fields =
     [''avg_verse_length'', ''vocabulary_richness'', ''repetition_rate'',
      ''rhythmic_patterns'', ''thematic_cohesion'']"

definition linguistic_fields :: "string list" where
  "linguistic_fields =
     [''unique_words'', ''root_words'', ''grammatical_complexity'',
      ''semantic_density'', ''oral_preservation'']"

definition historical_fields :: "string list" where
  "historical_fields =
     [''manuscripts_earliest'', ''translations_timeline'', ''academic_studies'',
      ''cultural_references'', ''legal_influence'']"

definition has_fields :: "book_data \<Rightarrow> string \<Rightarrow> string list \<Rightarrow> bool" where
  "has_fields bd section names =
     (case map_of bd section of
        None \<Rightarrow> False
      | Some data \<Rightarrow> list_all (\<lambda>f. map_of data f \<noteq> None) names)"

definition is_book_record :: "book_data \<Rightarrow> bool" where
  "is_book_record bd \<longleftrightarrow>
     has_fields bd ''structural_analysis'' structural_fields \<and>
     has_fields bd ''linguistic_features'' linguistic_fields \<and>
     has_fields bd ''historical_impact'' historical_fields"

text \<open>Formatting the fifteen fields of a record for the overview page.\<close>

definition show_book :: "book_data \<Rightarrow> py_error + unit" where
  "show_book book_data =
     py_bind (getitem book_data ''structural_analysis'') (\<lambda>structural.
     py_bind (show_fields structural structural_display) (\<lambda>_.
     py_bind (getitem book_data ''linguistic_features'') (\<lambda>linguistic.
     py_bind (show_fields linguistic linguistic_display) (\<lambda>_.
     py_bind (getitem book_data ''historical_impact'') (\<lambda>historical.
     py_bind (show_fields historical historical_display) (\<lambda>_. Inr ()))))))"

text \<open>The composite score as documented, over the values of the four fields it names:
  \<open>thematic_cohesion * 0.20 + semantic_density * 0.25 + legal_influence * 0.30 +
  (oral_preservation / 10) * 0.25\<close>.\<close>

definition documented_composite :: "pynum \<Rightarrow> pynum \<Rightarrow> pynum \<Rightarrow> pynum \<Rightarrow> py_error + pynum" where
  "documented_composite thematic_cohesion semantic_density legal_influence oral_preservation =
     add_e
       (add_e
          (add_e (mul_e (Inr thematic_cohesion) (flt (20 / 100)))
                 (mul_e (Inr semantic_density) (flt (25 / 100))))
          (mul_e (Inr legal_influence) (flt (30 / 100))))
       (mul_e (div_e (Inr oral_preservation) (num 10)) (flt (25 / 100)))"

text \<open>The complexity index as documented:
  \<open>(vocabulary_richness * 30 + thematic_cohesion * 25 + (100 - repetition_rate) * 20 +
  rhythmic_patterns * 0.25) / 100\<close>.\<close>

definition documented_complexity :: "pynum \<Rightarrow> pynum \<Rightarrow> pynum \<Rightarrow> pynum \<Rightarrow> py_error + pynum" where
  "documented_complexity vocabulary_richness thematic_cohesion repetition_rate rhythmic_patterns =
     div_e
       (add_e
          (add_e
             (add_e (mul_e (Inr vocabulary_richness) (num 30))
                    (mul_e (Inr thematic_cohesion) (num 25)))
             (mul_e (sub_e (num 100) (Inr repetition_rate)) (num 20)))
          (mul_e (Inr rhythmic_patterns) (flt (25 / 100))))
       (num 100)"

text \<open>The order of numbers, and the maximum of a list of them.\<close>

definition py_le :: "pynum \<Rightarrow> pynum \<Rightarrow> bool" where
  "py_le x y \<longleftrightarrow> fgt (exact_value y) (exact_value x) \<or> exact_value x = exact_value y"

definition is_maximum :: "pynum \<Rightarrow> pynum list \<Rightarrow> bool" where
  "is_maximum m vs \<longleftrightarrow> m \<in> set vs \<and> list_all (\<lambda>v. py_le v m) vs"

definition not_nan :: "pynum \<Rightarrow> bool" where
  "not_nan v \<longleftrightarrow> exact_value v \<noteq> NaN"

text \<open>The documented normaliser: the value divided by the maximum, scaled by 100.\<close>

definition documented_normalized :: "pynum \<Rightarrow> pynum \<Rightarrow> py_error + pynum" where
  "documented_normalized v m = mul_e (div_e (Inr v) (Inr m)) (num 100)"

text \<open>The assignment \<open>books[book][section][field] = v\<close>, used to state how a changed field
  propagates.\<close>

fun setitem :: "'v pydict \<Rightarrow> string \<Rightarrow> 'v \<Rightarrow> 'v pydict" where
  "setitem [] k v = [(k, v)]"
| "setitem ((k', v') # d) k v = (if k' = k then (k, v) # d else (k', v') # setitem d k v)"

definition set_field :: "books \<Rightarrow> string \<Rightarrow> string \<Rightarrow> string \<Rightarrow> pynum \<Rightarrow> py_error + books" where
  "set_field bs book section field v =
     py_bind (getitem bs book) (\<lambda>book_data.
     py_bind (getitem book_data section) (\<lambda>data.
       Inr (setitem bs book (setitem book_data section (setitem data field v)))))"

text \<open>The two documented formulas in exact arithmetic, and what it is for a computed float to
  equal an exact value up to the relative spacing \<open>2 ^ - 52\<close> of binary64.\<close>

definition exact_composite :: "rat \<Rightarrow> rat \<Rightarrow> rat \<Rightarrow> rat \<Rightarrow> rat" where
  "exact_composite thematic_cohesion semantic_density legal_influence oral_preservation =
     thematic_cohesion * (20 / 100) + semantic_density * (25 / 100)
     + legal_influence * (30 / 100) + (oral_preservation / 10) * (25 / 100)"

definition exact_complexity :: "rat \<Rightarrow> rat \<Rightarrow> rat \<Rightarrow> rat \<Rightarrow> rat" where
  "exact_complexity vocabulary_richness thematic_cohesion repetition_rate rhythmic_patterns =
     (vocabulary_richness * 30 + thematic_cohesion * 25 + (100 - repetition_rate) * 20
      + rhythmic_patterns * (25 / 100)) / 100"

fun within_tolerance :: "pynum \<Rightarrow> rat \<Rightarrow> bool" where
  "within_tolerance (PyFloat (Finite r)) q = (\<bar>r - q\<bar> \<le> \<bar>q\<bar> / 2 ^ 52)"
| "within_tolerance _ q = False"

text \<open>A dataset holds a book record under a name; a field of a book lies in a range of
  values.\<close>

definition book_record_at :: "books \<Rightarrow> string \<Rightarrow> bool" where
  "book_record_at bs book = (case map_of bs book of None \<Rightarrow> False | Some bd \<Rightarrow> is_book_record bd)"

fun in_range :: "rat \<Rightarrow> rat \<Rightarrow> pynum \<Rightarrow> bool" where
  "in_range lo hi (PyInt n) = (lo \<le> of_int n \<and> of_int n \<le> hi)"
| "in_range lo hi (PyFloat (Finite q)) = (lo \<le> q \<and> q \<le> hi)"
| "in_range lo hi _ = False"

definition field_in_range :: "books \<Rightarrow> string \<Rightarrow> string \<Rightarrow> string \<Rightarrow> rat \<Rightarrow> rat \<Rightarrow> bool" where
  "field_in_range bs book section field lo hi =
     (case metric_of bs book section field of Inl _ \<Rightarrow> False | Inr v \<Rightarrow> in_range lo hi v)"


text \<open>Numbers that a float holds exactly: the finite floats, and the ints below \<open>2 ^ 53\<close>.\<close>

fun representable :: "pynum \<Rightarrow> bool" where
  "representable (PyInt n) = (\<bar>n\<bar> < 2 ^ 53)"
| "representable (PyFloat (Finite q)) = (to_float q = Finite q)"
| "representable _ = False"

text \<open>A metric can be compared across the books when the three values exist and none is NaN;
  it can be scaled when they are exact non-negative numbers, one of them positive.\<close>

definition comparable_column :: "books \<Rightarrow> string \<Rightarrow> bool" where
  "comparable_column bs m =
     (case column_of bs m of Inl _ \<Rightarrow> False | Inr col \<Rightarrow> list_all not_nan col)"

definition scalable_column :: "books \<Rightarrow> string \<Rightarrow> bool" where
  "scalable_column bs m =
     (case column_of bs m of
        Inl _ \<Rightarrow> False
      | Inr col \<Rightarrow>
          list_all (\<lambda>v. representable v \<and> \<not> py_gt (PyInt 0) v) col
          \<and> list_ex (\<lambda>v. py_gt v (PyInt 0)) col)"

text \<open>For the metric at position \<open>i\<close>: how many of the three radar values are 100, and how many
  books hold the maximum.\<close>

definition hundreds :: "books \<Rightarrow> nat \<Rightarrow> nat" where
  "hundreds bs i =
     length (filter
       (\<lambda>b. case normalized bs b of
               Inl _ \<Rightarrow> False
             | Inr rs \<Rightarrow> i < length rs \<and> rs ! i = PyFloat (Finite 100))
       book_names)"

definition maximum_holders :: "books \<Rightarrow> nat \<Rightarrow> nat" where
  "maximum_holders bs i =
     (case column_of bs (structural_metrics ! i) of
        Inl _ \<Rightarrow> 0
      | Inr col \<Rightarrow> length (filter (\<lambda>v. is_maximum v col) col))"

text \<open>The static dataset with the thematic cohesion of Torah set to that of Coran, 9.2.\<close>

definition tied_books :: books where
  "tied_books =
     (case set_field load_advanced_data ''Torah'' ''structural_analysis'' ''thematic_cohesion''
             (fl (92 / 10)) of
        Inl _ \<Rightarrow> load_advanced_data
      | Inr bs \<Rightarrow> bs)"


text \<open>The static dataset with the rhythmic patterns of the three books set to 0.\<close>

definition zero_rhythm_books :: books where
  "zero_rhythm_books =
     (case py_bind (set_field load_advanced_data ''Coran'' ''structural_analysis''
                      ''rhythmic_patterns'' (PyInt 0)) (\<lambda>bs.
           py_bind (set_field bs ''Torah'' ''structural_analysis'' ''rhythmic_patterns'' (PyInt 0))
             (\<lambda>bs. set_field bs ''Bible'' ''structural_analysis'' ''rhythmic_patterns'' (PyInt 0))) of
        Inl _ \<Rightarrow> load_advanced_data
      | Inr bs \<Rightarrow> bs)"

section \<open>Properties of rounding\<close>

lemma bit_length_bounds:
  "0 < n \<Longrightarrow> 2 ^ (bit_length n - 1) \<le> n \<and> n < 2 ^ bit_length n"
proof (induction n rule: bit_length.induct)
  case (1 n)
  show ?case
  proof (cases "n div 2 = 0")
    case True
    with "1.prems" have "n = 1" by (simp add: div_eq_0_iff) 
    then show ?thesis by (simp add: bit_length.simps)
  next
    case False
    then have pos: "0 < n div 2" by simp
    from "1.IH" [OF _ pos] "1.prems"
    have ih: "2 ^ (bit_length (n div 2) - 1) \<le> n div 2" "n div 2 < 2 ^ bit_length (n div 2)"
      by simp_all
    have bl: "bit_length n = Suc (bit_length (n div 2))"
      using "1.prems" by (subst bit_length.simps) simp
    have b1: "0 < bit_length (n div 2)"
      using pos by (subst bit_length.simps) simp
    then have "(2::nat) ^ bit_length (n div 2) = 2 * 2 ^ (bit_length (n div 2) - 1)"
      by (cases "bit_length (n div 2)") simp_all
    with ih(1) have lo: "(2::nat) ^ bit_length (n div 2) \<le> n" by linarith
    from ih(2) have hi: "n < 2 * 2 ^ bit_length (n div 2)" by linarith
    show ?thesis using lo hi by (simp add: bl)
  qed
qed

lemma ilog2_bounds:
  assumes "0 < x"
  shows "2 powi ilog2 x \<le> x" and "x < 2 powi (ilog2 x + 1)"
proof -
  have "2 powi ilog2 x \<le> x \<and> x < 2 powi (ilog2 x + 1)"
  proof (cases "1 \<le> x")
    case True
    define n where "n = nat \<lfloor>x\<rfloor>"
    have n1: "0 < n" using True by (simp add: n_def)
    have fl0: "0 \<le> \<lfloor>x\<rfloor>" using True by simp
    have "(of_nat n :: rat) = of_int \<lfloor>x\<rfloor>" using fl0 by (simp add: n_def)
    then have xn: "of_nat n \<le> x" "x < of_nat n + 1"
      by linarith+
    from bit_length_bounds [OF n1]
    have b: "2 ^ (bit_length n - 1) \<le> n" "n < 2 ^ bit_length n" by simp_all
    have bp: "0 < bit_length n" using n1 by (subst bit_length.simps) simp
    have k: "ilog2 x = int (bit_length n - 1)"
      using True bp by (simp add: ilog2_def n_def)
    have "(2::rat) ^ (bit_length n - 1) \<le> of_nat n"
      using b(1) by (metis of_nat_le_iff of_nat_numeral of_nat_power)
    then have "2 ^ (bit_length n - 1) \<le> x" using xn(1) by linarith
    then have lo: "2 powi ilog2 x \<le> x" by (simp add: k)
    have "Suc n \<le> 2 ^ bit_length n" using b(2) by simp
    then have "(of_nat (Suc n) :: rat) \<le> 2 ^ bit_length n"
      by (metis of_nat_le_iff of_nat_numeral of_nat_power)
    then have "x < 2 ^ bit_length n" using xn(2) by simp
    moreover have "ilog2 x + 1 = int (bit_length n)" using k bp by simp
    ultimately have hi: "x < 2 powi (ilog2 x + 1)" by simp
    show ?thesis using lo hi by simp
  next
    case False
    define y where "y = 1 / x"
    have y1: "1 < y" using False assms by (simp add: y_def)
    define n where "n = nat (\<lceil>y\<rceil> - 1)"
    have c2: "2 \<le> \<lceil>y\<rceil>" using y1 by (simp add: le_ceiling_iff)
    have n1: "0 < n" using c2 by (simp add: n_def)
    have yn: "of_nat n < y" "y \<le> of_nat n + 1"
    proof -
      have "of_int (\<lceil>y\<rceil> - 1) < y" by linarith
      moreover have "(of_nat n :: rat) = of_int (\<lceil>y\<rceil> - 1)" using c2 by (simp add: n_def)
      ultimately show "of_nat n < y" by simp
      have "y \<le> of_int \<lceil>y\<rceil>" by linarith
      moreover have "(of_nat n :: rat) + 1 = of_int \<lceil>y\<rceil>" using c2 by (simp add: n_def)
      ultimately show "y \<le> of_nat n + 1" by simp
    qed
    from bit_length_bounds [OF n1]
    have b: "2 ^ (bit_length n - 1) \<le> n" "n < 2 ^ bit_length n" by simp_all
    have bp: "0 < bit_length n" using n1 by (subst bit_length.simps) simp
    have k: "ilog2 x = - int (bit_length n)"
      using False by (simp add: ilog2_def n_def y_def)
    have "Suc n \<le> 2 ^ bit_length n" using b(2) by simp
    then have "(of_nat (Suc n) :: rat) \<le> 2 ^ bit_length n"
      by (metis of_nat_le_iff of_nat_numeral of_nat_power)
    then have "y \<le> 2 ^ bit_length n" using yn(2) by simp
    then have "1 / 2 ^ bit_length n \<le> x"
      using assms by (simp add: y_def field_simps)
    then have lo: "2 powi ilog2 x \<le> x"
      by (simp add: k power_int_minus_divide)
    have "(2::rat) ^ (bit_length n - 1) \<le> of_nat n"
      using b(1) by (metis of_nat_le_iff of_nat_numeral of_nat_power)
    then have "2 ^ (bit_length n - 1) < y" using yn(1) by linarith
    then have "x < 1 / 2 ^ (bit_length n - 1)"
      using assms by (simp add: y_def field_simps)
    moreover have "ilog2 x + 1 = - int (bit_length n - 1)" using k bp by simp
    ultimately have hi: "x < 2 powi (ilog2 x + 1)"
      by (simp add: power_int_minus_divide)
    show ?thesis using lo hi by simp
  qed
  then show "2 powi ilog2 x \<le> x" and "x < 2 powi (ilog2 x + 1)" by simp_all
qed

lemma pow2_less_iff: "(2::rat) powi a < 2 powi b \<longleftrightarrow> a < b"
proof
  assume l: "(2::rat) powi a < 2 powi b"
  show "a < b"
  proof (rule ccontr)
    assume "\<not> a < b"
    then have "b \<le> a" by simp
    then have "(2::rat) powi b \<le> 2 powi a" by (rule power_int_increasing) simp
    with l show False by simp
  qed
next
  assume "a < b"
  then show "(2::rat) powi a < 2 powi b" by (rule power_int_strict_increasing) simp
qed

lemma pow2_le_iff: "(2::rat) powi a \<le> 2 powi b \<longleftrightarrow> a \<le> b"
  using pow2_less_iff [of b a] by (simp add: not_less [symmetric])

lemma pow2_pos: "0 < (2::rat) powi a"
  by (simp add: zero_less_power_int)

lemma ilog2_unique:
  assumes "2 powi k \<le> x" and "x < 2 powi (k + 1)"
  shows "ilog2 x = k"
proof -
  have pos: "0 < x"
    using assms(1) pow2_pos [of k] by linarith
  note b = ilog2_bounds [OF pos]
  have "(2::rat) powi k < 2 powi (ilog2 x + 1)" using assms(1) b(2) by simp
  then have 1: "k < ilog2 x + 1" by (simp add: pow2_less_iff) 
  have "(2::rat) powi ilog2 x < 2 powi (k + 1)" using assms(2) b(1) by simp
  then have 2: "ilog2 x < k + 1" by (simp add: pow2_less_iff)
  show ?thesis using 1 2 by simp
qed


lemma round_half_even_bounds:
  "y - 1 / 2 \<le> of_int (round_half_even y)" "of_int (round_half_even y) \<le> y + 1 / 2"
  unfolding round_half_even_def Let_def by (simp_all; linarith)+

lemma round_half_even_unique:
  assumes "\<bar>y - of_int m\<bar> < 1 / 2"
  shows "round_half_even y = m"
proof -
  have "\<bar>of_int (round_half_even y) - (of_int m :: rat)\<bar> < 1"
    using assms round_half_even_bounds [of y] by linarith
  then have "\<bar>round_half_even y - m\<bar> < 1"
    by (metis of_int_1 of_int_abs of_int_diff of_int_less_iff)
  then show ?thesis by simp
qed

lemma round_half_even_of_int: "round_half_even (of_int k) = k"
  by (rule round_half_even_unique) simp

lemma round_half_even_mono:
  assumes "y \<le> z"
  shows "round_half_even y \<le> round_half_even z"
proof -
  have fg: "\<lfloor>y\<rfloor> \<le> \<lfloor>z\<rfloor>" using assms by (rule floor_mono)
  show ?thesis
  proof (cases "\<lfloor>y\<rfloor> = \<lfloor>z\<rfloor>")
    case True
    then show ?thesis
      using assms unfolding round_half_even_def Let_def by auto
  next
    case False
    with fg have "\<lfloor>y\<rfloor> + 1 \<le> \<lfloor>z\<rfloor>" by simp
    moreover have "round_half_even y \<le> \<lfloor>y\<rfloor> + 1"
      unfolding round_half_even_def Let_def by simp
    moreover have "\<lfloor>z\<rfloor> \<le> round_half_even z"
      unfolding round_half_even_def Let_def by simp
    ultimately show ?thesis by linarith
  qed
qed

lemma round_half_even_le_int: "y \<le> of_int k \<Longrightarrow> round_half_even y \<le> k"
  using round_half_even_mono [of y "of_int k"] by (simp add: round_half_even_of_int)

lemma round_half_even_ge_int: "of_int k \<le> y \<Longrightarrow> k \<le> round_half_even y"
  using round_half_even_mono [of "of_int k" y] by (simp add: round_half_even_of_int)

lemma ilog2_mono:
  assumes "0 < x" and "x \<le> y"
  shows "ilog2 x \<le> ilog2 y"
proof -
  have "0 < y" using assms by simp
  from ilog2_bounds(1) [OF assms(1)] ilog2_bounds(2) [OF \<open>0 < y\<close>] assms(2)
  have "(2::rat) powi ilog2 x < 2 powi (ilog2 y + 1)" by linarith
  then show ?thesis by (simp add: pow2_less_iff)
qed

lemma ulp_exponent_mono:
  "0 < x \<Longrightarrow> x \<le> y \<Longrightarrow> ulp_exponent x \<le> ulp_exponent y"
  using ilog2_mono [of x y] by (simp add: ulp_exponent_def)

lemma round_binary64_pos:
  "0 < x \<Longrightarrow> round_binary64 x
     = of_int (round_half_even (x / 2 powi ulp_exponent x)) * 2 powi ulp_exponent x"
  by (simp add: round_binary64_def)

text \<open>Rounding never crosses a multiple of a power of two at least as coarse as the grid.\<close>

lemma round_binary64_le_grid:
  assumes "0 < x" and "x \<le> of_int k * 2 powi j" and "ulp_exponent x \<le> j"
  shows "round_binary64 x \<le> of_int k * 2 powi j"
proof -
  define p where "p = ulp_exponent x"
  have j: "(2::rat) powi j = 2 ^ nat (j - p) * 2 powi p"
    using assms(3) by (simp add: p_def power_int_add [symmetric] power_int_nonneg_exp [symmetric])
  have "x / 2 powi p \<le> of_int (k * 2 ^ nat (j - p))"
    using assms(2) pow2_pos [of p] by (simp add: j field_simps)
  then have "round_half_even (x / 2 powi p) \<le> k * 2 ^ nat (j - p)"
    by (rule round_half_even_le_int)
  then have "(of_int (round_half_even (x / 2 powi p)) :: rat) \<le> of_int (k * 2 ^ nat (j - p))"
    by (simp only: of_int_le_iff)
  then have "of_int (round_half_even (x / 2 powi p)) * 2 powi p
      \<le> (of_int (k * 2 ^ nat (j - p)) :: rat) * 2 powi p"
    using pow2_pos [of p] by (simp add: mult_right_mono)
  then show ?thesis
    using assms(1) by (simp add: round_binary64_pos p_def [symmetric] j mult.assoc)
qed

lemma round_binary64_ge_grid:
  assumes "0 < x" and "of_int k * 2 powi j \<le> x" and "ulp_exponent x \<le> j"
  shows "of_int k * 2 powi j \<le> round_binary64 x"
proof -
  define p where "p = ulp_exponent x"
  have j: "(2::rat) powi j = 2 ^ nat (j - p) * 2 powi p"
    using assms(3) by (simp add: p_def power_int_add [symmetric] power_int_nonneg_exp [symmetric])
  have "of_int (k * 2 ^ nat (j - p)) \<le> x / 2 powi p"
    using assms(2) pow2_pos [of p] by (simp add: j field_simps)
  then have "k * 2 ^ nat (j - p) \<le> round_half_even (x / 2 powi p)"
    by (rule round_half_even_ge_int)
  then have "(of_int (k * 2 ^ nat (j - p)) :: rat) \<le> of_int (round_half_even (x / 2 powi p))"
    by (simp only: of_int_le_iff)
  then have "(of_int (k * 2 ^ nat (j - p)) :: rat) * 2 powi p
      \<le> of_int (round_half_even (x / 2 powi p)) * 2 powi p"
    using pow2_pos [of p] by (simp add: mult_right_mono)
  then show ?thesis
    using assms(1) by (simp add: round_binary64_pos p_def [symmetric] j mult.assoc)
qed

lemma round_binary64_nonneg: "0 \<le> x \<Longrightarrow> 0 \<le> round_binary64 x"
proof (cases "x = 0")
  case True
  then show ?thesis by (simp add: round_binary64_def)
next
  case False
  assume "0 \<le> x"
  with False have pos: "0 < x" by simp
  have "0 \<le> x / 2 powi ulp_exponent x" using pos pow2_pos [of "ulp_exponent x"] by simp
  then have "0 \<le> round_half_even (x / 2 powi ulp_exponent x)"
    using round_half_even_ge_int [of 0] by simp
  then show ?thesis
    using pos pow2_pos [of "ulp_exponent x"] by (simp add: round_binary64_pos)
qed

lemma round_binary64_minus: "round_binary64 (- x) = - round_binary64 x"
  by (simp add: round_binary64_def ulp_exponent_def sgn_minus)

lemma round_binary64_mono_pos:
  assumes "0 < x" and "x \<le> y"
  shows "round_binary64 x \<le> round_binary64 y"
proof -
  have ypos: "0 < y" using assms by simp
  have le: "ulp_exponent x \<le> ulp_exponent y" using assms by (rule ulp_exponent_mono)
  show ?thesis
  proof (cases "ulp_exponent x = ulp_exponent y")
    case True
    have "x / 2 powi ulp_exponent y \<le> y / 2 powi ulp_exponent y"
      using assms(2) pow2_pos [of "ulp_exponent y"] by (simp add: divide_right_mono)
    then have "round_half_even (x / 2 powi ulp_exponent y)
        \<le> round_half_even (y / 2 powi ulp_exponent y)"
      by (rule round_half_even_mono)
    then have "(of_int (round_half_even (x / 2 powi ulp_exponent y)) :: rat)
        \<le> of_int (round_half_even (y / 2 powi ulp_exponent y))"
      by (simp only: of_int_le_iff)
    then show ?thesis
      using assms(1) ypos pow2_pos [of "ulp_exponent y"]
      by (simp add: round_binary64_pos True mult_right_mono)
  next
    case False
    with le have lt: "ulp_exponent x < ulp_exponent y" by simp
    then have uy: "ulp_exponent y = ilog2 y - 52" and big: "- 1074 < ilog2 y - 52"
      and il: "ilog2 x < ilog2 y"
      using assms ypos by (auto simp: ulp_exponent_def abs_if max_def split: if_splits)
    define a :: rat where "a = 2 powi ilog2 y"
    have "x < 2 powi (ilog2 x + 1)" using assms(1) by (rule ilog2_bounds)
    also have "\<dots> \<le> a" using il by (simp add: a_def pow2_le_iff)
    finally have xa: "x \<le> of_int 1 * 2 powi ilog2 y" by (simp add: a_def)
    have "ulp_exponent x \<le> ilog2 y"
      using il big assms(1) by (simp add: ulp_exponent_def abs_if max_def)
    with xa have 1: "round_binary64 x \<le> of_int 1 * 2 powi ilog2 y"
      by (rule round_binary64_le_grid [OF assms(1)])
    have a2: "of_int 1 * 2 powi ilog2 y = (of_int (2 ^ 52) :: rat) * 2 powi ulp_exponent y"
      by (simp add: uy power_int_diff)
    have "of_int 1 * 2 powi ilog2 y \<le> y" using ilog2_bounds(1) [OF ypos] by simp
    then have "(of_int (2 ^ 52) :: rat) * 2 powi ulp_exponent y \<le> y" by (simp only: a2)
    then have "(of_int (2 ^ 52) :: rat) * 2 powi ulp_exponent y \<le> round_binary64 y"
      by (rule round_binary64_ge_grid [OF ypos]) simp
    with 1 show ?thesis by (simp only: a2)
  qed
qed

lemma round_binary64_mono:
  assumes "x \<le> y"
  shows "round_binary64 x \<le> round_binary64 y"
proof -
  consider "0 < x" | "x \<le> 0" "0 \<le> y" | "y < 0" by linarith
  then show ?thesis
  proof cases
    case 1
    then show ?thesis using assms by (rule round_binary64_mono_pos)
  next
    case 2
    have "round_binary64 x \<le> 0"
      using round_binary64_nonneg [of "- x"] 2(1) by (simp add: round_binary64_minus)
    moreover have "0 \<le> round_binary64 y" using 2(2) by (rule round_binary64_nonneg)
    ultimately show ?thesis by simp
  next
    case 3
    then have "0 < - y" "- y \<le> - x" using assms by simp_all
    then have "round_binary64 (- y) \<le> round_binary64 (- x)" by (rule round_binary64_mono_pos)
    then show ?thesis by (simp add: round_binary64_minus)
  qed
qed

text \<open>A certificate for one rounding: the binade of \<open>x\<close> and the nearest integer multiple.\<close>

lemma round_binary64_cert:
  assumes "2 ^ 52 * 2 powi e \<le> x" and "x < 2 ^ 53 * 2 powi e" and "- 1074 \<le> e"
    and "\<bar>x / 2 powi e - of_int m\<bar> < 1 / 2"
  shows "round_binary64 x = of_int m * 2 powi e"
proof -
  have pos: "0 < x" using assms(1) pow2_pos [of e] 
    by (smt (verit) mult_pos_pos zero_less_numeral zero_less_power less_le_trans)
  have "2 powi (e + 52) \<le> x" "x < 2 powi (e + 52 + 1)"
    using assms(1,2) by (simp_all add: power_int_add mult.commute)
  then have "ilog2 x = e + 52" by (rule ilog2_unique)
  then have u: "ulp_exponent x = e" using assms(3) pos by (simp add: ulp_exponent_def)
  have "round_half_even (x / 2 powi e) = m" using assms(4) by (rule round_half_even_unique)
  then show ?thesis using pos by (simp add: round_binary64_pos u)
qed

lemma to_float_cert:
  assumes "2 ^ 52 * 2 powi e \<le> x" and "x < 2 ^ 53 * 2 powi e" and "- 1074 \<le> e"
    and "\<bar>x / 2 powi e - of_int m\<bar> < 1 / 2" and "r = of_int m * 2 powi e"
    and "0 \<le> m" and "r < 2 ^ 1024"
  shows "to_float x = Finite r"
proof -
  have rb: "round_binary64 x = r" using assms(1-5) by (simp add: round_binary64_cert)
  have "0 \<le> r" using assms(5,6) pow2_pos [of e] by simp
  then show ?thesis using assms(7) by (simp add: to_float_def rb Let_def)
qed


lemma round_half_even_tie:
  assumes "y = of_int f + 1 / 2"
  shows "round_half_even y = (if even f then f else f + 1)"
proof -
  have "\<lfloor>y\<rfloor> = f" unfolding assms by (rule floor_unique) simp_all
  then show ?thesis by (simp add: round_half_even_def Let_def assms)
qed

lemma to_float_cert_tie:
  assumes "2 ^ 52 * 2 powi e \<le> x" and "x < 2 ^ 53 * 2 powi e" and "- 1074 \<le> e"
    and "x / 2 powi e = of_int f + 1 / 2"
    and "r = of_int (if even f then f else f + 1) * 2 powi e"
    and "0 \<le> f" and "r < 2 ^ 1024"
  shows "to_float x = Finite r"
proof -
  have pos: "0 < x" using assms(1) pow2_pos [of e]
    by (smt (verit) mult_pos_pos zero_less_numeral zero_less_power less_le_trans)
  have "2 powi (e + 52) \<le> x" "x < 2 powi (e + 52 + 1)"
    using assms(1,2) by (simp_all add: power_int_add mult.commute)
  then have "ilog2 x = e + 52" by (rule ilog2_unique)
  then have u: "ulp_exponent x = e" using assms(3) pos by (simp add: ulp_exponent_def)
  have "round_half_even (x / 2 powi e) = (if even f then f else f + 1)"
    using assms(4) by (rule round_half_even_tie)
  then have rb: "round_binary64 x = r" using pos by (simp add: round_binary64_pos u assms(5))
  have "0 \<le> r" using assms(5,6) pow2_pos [of e] by simp
  then show ?thesis using assms(7) by (simp add: to_float_def rb Let_def)
qed

lemma round_binary64_of_int:
  assumes "\<bar>n\<bar> < 2 ^ 53"
  shows "round_binary64 (of_int n) = of_int n"
proof -
  have pos: "round_binary64 (of_int k) = of_int k" if "0 < k" "k < 2 ^ 53" for k :: int
  proof -
    have x: "0 < (of_int k :: rat)" using that by simp
    have "(of_int k :: rat) < of_int (2 ^ 53)" using that(2) by (simp only: of_int_less_iff)
    then have "(of_int k :: rat) < 2 powi 53" by simp
    with ilog2_bounds(1) [OF x] have "(2::rat) powi ilog2 (of_int k) < 2 powi 53"
      by (rule le_less_trans)
    then have "ilog2 (of_int k) < 53" by (simp only: pow2_less_iff)
    then have "ilog2 (of_int k) \<le> 52" by simp
    then have u: "ulp_exponent (of_int k) \<le> 0" using x by (simp add: ulp_exponent_def)
    have "round_binary64 (of_int k) \<le> of_int k * 2 powi 0"
      by (rule round_binary64_le_grid [OF x _ u]) simp
    moreover have "of_int k * 2 powi 0 \<le> round_binary64 (of_int k)"
      by (rule round_binary64_ge_grid [OF x _ u]) simp
    ultimately show ?thesis by simp
  qed
  consider "0 < n" | "n = 0" | "n < 0" by linarith
  then show ?thesis
  proof cases
    case 1
    then show ?thesis using assms by (simp add: pos)
  next
    case 2
    then show ?thesis by (simp add: round_binary64_def)
  next
    case 3
    then have "round_binary64 (of_int (- n)) = of_int (- n)" using assms by (intro pos) simp_all
    then show ?thesis by (simp add: round_binary64_minus)
  qed
qed

lemma to_float_of_int: "\<bar>n\<bar> < 2 ^ 53 \<Longrightarrow> to_float (of_int n) = Finite (of_int n)"
proof -
  assume a: "\<bar>n\<bar> < 2 ^ 53"
  then have "\<bar>of_int n :: rat\<bar> < of_int (2 ^ 53)"
    by (simp only: of_int_abs [symmetric] of_int_less_iff)
  then have "\<bar>of_int n :: rat\<bar> < 2 ^ 1024" by simp
  then show ?thesis
    using a by (simp add: to_float_def round_binary64_of_int Let_def abs_less_iff)
qed

lemma to_float_numeral [simp]:
  "(numeral w :: int) < 2 ^ 53 \<Longrightarrow> to_float (numeral w) = Finite (numeral w)"
  using to_float_of_int [of "numeral w"] by simp

lemma to_float_zero [simp]: "to_float 0 = Finite 0"
  by (simp add: to_float_def round_binary64_def)

lemma to_float_one [simp]: "to_float 1 = Finite 1"
  using to_float_of_int [of 1] by simp

lemma py_format_float [simp]: "py_format spec (PyFloat f) = Inr ()"
  by (simp add: py_format.simps)

lemma py_format_small [simp]:
  assumes "\<bar>n\<bar> < 2 ^ 53"
  shows "py_format spec (PyInt n) = Inr ()"
proof -
  have "(2::int) ^ 53 \<le> 10 ^ 16" by simp
  also have "(10::int) ^ 16 \<le> 10 ^ max_str_digits"
    by (rule power_increasing) (simp_all add: max_str_digits_def)
  finally have "\<not> 10 ^ max_str_digits \<le> \<bar>n\<bar>" using assms by linarith
  moreover have "float_of_int n = Inr (Finite (of_int n))"
    using assms by (simp add: float_of_int_def to_float_of_int)
  ultimately show ?thesis
    by (cases spec) (simp_all add: py_format.simps py_bind_def)
qed

section \<open>The scores of the static dataset\<close>

text \<open>Every rounding that occurs when the two scores and the radar values are computed for
  the three books, each with the binade and the significand that certify it.\<close>

lemma binary64_steps:
  shows "to_float (1 / 5) = Finite (3602879701896397 / 18014398509481984)"
    and "to_float (3602879701896397 / 18014398509481984) = Finite (3602879701896397 / 18014398509481984)"
    and "to_float (1 / 4) = Finite (1 / 4)"
    and "to_float (5404319552844595 / 18014398509481984) = Finite (5404319552844595 / 18014398509481984)"
    and "to_float (3 / 10) = Finite (5404319552844595 / 18014398509481984)"
    and "to_float (45 / 94) = Finite (8623914180071163 / 18014398509481984)"
    and "to_float (2448832297382707 / 4447304632028365) = Finite (4959660349129533 / 9007199254740992)"
    and "to_float (67 / 94) = Finite (6420025000719643 / 9007199254740992)"
    and "to_float (5150992073805005 / 7205759403792794) = Finite (183 / 256)"
    and "to_float (3462142213541069 / 4447304632028365) = Finite (7011933597045203 / 9007199254740992)"
    and "to_float (39 / 50) = Finite (3512807709348987 / 4503599627370496)"
    and "to_float (3512807709348987 / 4503599627370496) = Finite (3512807709348987 / 4503599627370496)"
    and "to_float (7025615418697974 / 8286623314361713) = Finite (3818269249292377 / 4503599627370496)"
    and "to_float (7656119366529843 / 9007199254740992) = Finite (7656119366529843 / 9007199254740992)"
    and "to_float (17 / 20) = Finite (7656119366529843 / 9007199254740992)"
    and "to_float (3110298492652749 / 3602879701896397) = Finite (221 / 256)"
    and "to_float (23 / 25) = Finite (8286623314361713 / 9007199254740992)"
    and "to_float (8286623314361713 / 9007199254740992) = Finite (8286623314361713 / 9007199254740992)"
    and "to_float (7656119366529843 / 8286623314361713) = Finite (1040233609582859 / 1125899906842624)"
    and "to_float (2392537302040576 / 2589569785738035) = Finite (4160934438331437 / 4503599627370496)"
    and "to_float (275219977228197 / 287729976193115) = Finite (8615581895839211 / 9007199254740992)"
    and "to_float (9007199254740991 / 9007199254740992) = Finite (9007199254740991 / 9007199254740992)"
    and "to_float (61248954932238749 / 36028797018963968) = Finite (1914029841632461 / 1125899906842624)"
    and "to_float (8924260225606736202508689955881 / 5070602400912917605986812821504) = Finite (3963167672086037 / 2251799813685248)"
    and "to_float (9329908417679768192353752359895 / 5070602400912917605986812821504) = Finite (517913957147607 / 281474976710656)"
    and "to_float (18014398509481985 / 9007199254740992) = Finite (2)"
    and "to_float (4728779608739021 / 2251799813685248) = Finite (4728779608739021 / 2251799813685248)"
    and "to_float (2476979795053773 / 1125899906842624) = Finite (2476979795053773 / 1125899906842624)"
    and "to_float (5122844576133939 / 2251799813685248) = Finite (5122844576133939 / 2251799813685248)"
    and "to_float (2679641778285445 / 1125899906842624) = Finite (2679641778285445 / 1125899906842624)"
    and "to_float (5505650544460431 / 2251799813685248) = Finite (5505650544460431 / 2251799813685248)"
    and "to_float (5623870034678907 / 2251799813685248) = Finite (5623870034678907 / 2251799813685248)"
    and "to_float (5 / 2) = Finite (5 / 2)"
    and "to_float (13994862626519650993745735670825 / 5070602400912917605986812821504) = Finite (1553741871442821 / 562949953421312)"
    and "to_float (102682071504047305 / 36028797018963968) = Finite (6417629469002957 / 2251799813685248)"
    and "to_float (14907571058683978290774185911255 / 5070602400912917605986812821504) = Finite (6620291452234629 / 2251799813685248)"
    and "to_float (27021597764222975 / 9007199254740992) = Finite (3)"
    and "to_float (4345973640412529 / 1125899906842624) = Finite (4345973640412529 / 1125899906842624)"
    and "to_float (2195504818343117 / 562949953421312) = Finite (2195504818343117 / 562949953421312)"
    and "to_float (9266156233314795 / 2251799813685248) = Finite (2316539058328699 / 562949953421312)"
    and "to_float (9 / 2) = Finite (9 / 2)"
    and "to_float (1874623344892969 / 281474976710656) = Finite (1874623344892969 / 281474976710656)"
    and "to_float (15312238733059687 / 2251799813685248) = Finite (1914029841632461 / 281474976710656)"
    and "to_float (15683785702317753 / 2251799813685248) = Finite (1960473212789719 / 281474976710656)"
    and "to_float (15 / 2) = Finite (15 / 2)"
    and "to_float (79 / 10) = Finite (4447304632028365 / 562949953421312)"
    and "to_float (4447304632028365 / 562949953421312) = Finite (4447304632028365 / 562949953421312)"
    and "to_float (2308094809027379 / 281474976710656) = Finite (2308094809027379 / 281474976710656)"
    and "to_float (41 / 5) = Finite (2308094809027379 / 281474976710656)"
    and "to_float (42 / 5) = Finite (4728779608739021 / 562949953421312)"
    and "to_float (4728779608739021 / 562949953421312) = Finite (4728779608739021 / 562949953421312)"
    and "to_float (17 / 2) = Finite (17 / 2)"
    and "to_float (2448832297382707 / 281474976710656) = Finite (2448832297382707 / 281474976710656)"
    and "to_float (87 / 10) = Finite (2448832297382707 / 281474976710656)"
    and "to_float (44 / 5) = Finite (2476979795053773 / 281474976710656)"
    and "to_float (2476979795053773 / 281474976710656) = Finite (2476979795053773 / 281474976710656)"
    and "to_float (5122844576133939 / 562949953421312) = Finite (5122844576133939 / 562949953421312)"
    and "to_float (91 / 10) = Finite (5122844576133939 / 562949953421312)"
    and "to_float (20502637303604183 / 2251799813685248) = Finite (2562829662950523 / 281474976710656)"
    and "to_float (1821 / 200) = Finite (2562829662950523 / 281474976710656)"
    and "to_float (2562829662950523 / 281474976710656) = Finite (2562829662950523 / 281474976710656)"
    and "to_float (1291970143101911 / 140737488355328) = Finite (1291970143101911 / 140737488355328)"
    and "to_float (459 / 50) = Finite (1291970143101911 / 140737488355328)"
    and "to_float (10335761144815289 / 1125899906842624) = Finite (1291970143101911 / 140737488355328)"
    and "to_float (2589569785738035 / 281474976710656) = Finite (2589569785738035 / 281474976710656)"
    and "to_float (46 / 5) = Finite (2589569785738035 / 281474976710656)"
    and "to_float (21307655736996659 / 2251799813685248) = Finite (5326913934249165 / 562949953421312)"
    and "to_float (757 / 80) = Finite (5326913934249165 / 562949953421312)"
    and "to_float (5326913934249165 / 562949953421312) = Finite (5326913934249165 / 562949953421312)"
    and "to_float (19 / 2) = Finite (19 / 2)"
    and "to_float (6699104445713613 / 703687441776640) = Finite (2679641778285445 / 281474976710656)"
    and "to_float (6882063180575539 / 703687441776640) = Finite (5505650544460431 / 562949953421312)"
    and "to_float (49 / 5) = Finite (2758454771764429 / 281474976710656)"
    and "to_float (2758454771764429 / 281474976710656) = Finite (2758454771764429 / 281474976710656)"
    and "to_float (3514918771674317 / 351843720888320) = Finite (5623870034678907 / 562949953421312)"
    and "to_float (45 / 4) = Finite (45 / 4)"
    and "to_float (123 / 10) = Finite (3462142213541069 / 281474976710656)"
    and "to_float (3462142213541069 / 281474976710656) = Finite (3462142213541069 / 281474976710656)"
    and "to_float (79 / 5) = Finite (4447304632028365 / 281474976710656)"
    and "to_float (4447304632028365 / 281474976710656) = Finite (4447304632028365 / 281474976710656)"
    and "to_float (67 / 4) = Finite (67 / 4)"
    and "to_float (183 / 10) = Finite (5150992073805005 / 281474976710656)"
    and "to_float (5150992073805005 / 281474976710656) = Finite (5150992073805005 / 281474976710656)"
    and "to_float (4267974285538099 / 219902325555200) = Finite (5463007085488767 / 281474976710656)"
    and "to_float (38817 / 2000) = Finite (5463007085488767 / 281474976710656)"
    and "to_float (5463007085488767 / 281474976710656) = Finite (5463007085488767 / 281474976710656)"
    and "to_float (1430596569131909 / 70368744177664) = Finite (1430596569131909 / 70368744177664)"
    and "to_float (2033 / 100) = Finite (1430596569131909 / 70368744177664)"
    and "to_float (732063637866283 / 35184372088832) = Finite (732063637866283 / 35184372088832)"
    and "to_float (41613 / 2000) = Finite (732063637866283 / 35184372088832)"
    and "to_float (4575397736664269 / 219902325555200) = Finite (732063637866283 / 35184372088832)"
    and "to_float (221 / 10) = Finite (3110298492652749 / 140737488355328)"
    and "to_float (3110298492652749 / 140737488355328) = Finite (3110298492652749 / 140737488355328)"
    and "to_float (52692115640234805 / 2251799813685248) = Finite (6586514455029351 / 281474976710656)"
    and "to_float (47 / 2) = Finite (47 / 2)"
    and "to_float (114841790497947645 / 4503599627370496) = Finite (51 / 2)"
    and "to_float (128 / 5) = Finite (3602879701896397 / 140737488355328)"
    and "to_float (3602879701896397 / 140737488355328) = Finite (3602879701896397 / 140737488355328)"
    and "to_float (124299349715425695 / 4503599627370496) = Finite (3884354678607053 / 140737488355328)"
    and "to_float (1684358238295149 / 35184372088832) = Finite (1684358238295149 / 35184372088832)"
    and "to_float (215597854501779075 / 4503599627370496) = Finite (1684358238295149 / 35184372088832)"
    and "to_float (598404255319149 / 12500000000000) = Finite (1684358238295149 / 35184372088832)"
    and "to_float (7749469295514895 / 140737488355328) = Finite (7749469295514895 / 140737488355328)"
    and "to_float (110126582278481 / 2000000000000) = Finite (7749469295514895 / 140737488355328)"
    and "to_float (123991508728238325 / 2251799813685248) = Finite (7749469295514895 / 140737488355328)"
    and "to_float (5015644531812221 / 70368744177664) = Finite (5015644531812221 / 70368744177664)"
    and "to_float (160500625017991075 / 2251799813685248) = Finite (5015644531812221 / 70368744177664)"
    and "to_float (1425531914893617 / 20000000000000) = Finite (5015644531812221 / 70368744177664)"
    and "to_float (4575 / 64) = Finite (4575 / 64)"
    and "to_float (175298339926130075 / 2251799813685248) = Finite (5478073122691565 / 70368744177664)"
    and "to_float (7784810126582279 / 100000000000000) = Finite (5478073122691565 / 70368744177664)"
    and "to_float (5478073122691565 / 70368744177664) = Finite (5478073122691565 / 70368744177664)"
    and "to_float (23700193039037235 / 281474976710656) = Finite (5925048259759309 / 70368744177664)"
    and "to_float (8478260869565217 / 100000000000000) = Finite (5966045702019339 / 70368744177664)"
    and "to_float (5966045702019339 / 70368744177664) = Finite (5966045702019339 / 70368744177664)"
    and "to_float (95456731232309425 / 1125899906842624) = Finite (5966045702019339 / 70368744177664)"
    and "to_float (5525 / 64) = Finite (5525 / 64)"
    and "to_float (24685355457524531 / 281474976710656) = Finite (6171338864381133 / 70368744177664)"
    and "to_float (25698665373682893 / 281474976710656) = Finite (6424666343420723 / 70368744177664)"
    and "to_float (26005840239571475 / 281474976710656) = Finite (6501460059892869 / 70368744177664)"
    and "to_float (6501460059892869 / 70368744177664) = Finite (6501460059892869 / 70368744177664)"
    and "to_float (577445652173913 / 6250000000000) = Finite (6501460059892869 / 70368744177664)"
    and "to_float (3250730029946435 / 35184372088832) = Finite (3250730029946435 / 35184372088832)"
    and "to_float (104023360958285925 / 1125899906842624) = Finite (3250730029946435 / 35184372088832)"
    and "to_float (923913043478261 / 10000000000000) = Finite (3250730029946435 / 35184372088832)"
    and "to_float (476 / 5) = Finite (6699104445713613 / 70368744177664)"
    and "to_float (6699104445713613 / 70368744177664) = Finite (6699104445713613 / 70368744177664)"
    and "to_float (215389547395980275 / 2251799813685248) = Finite (210341354878887 / 2199023255552)"
    and "to_float (210341354878887 / 2199023255552) = Finite (210341354878887 / 2199023255552)"
    and "to_float (191304347826087 / 2000000000000) = Finite (210341354878887 / 2199023255552)"
    and "to_float (6882063180575539 / 70368744177664) = Finite (6882063180575539 / 70368744177664)"
    and "to_float (489 / 5) = Finite (6882063180575539 / 70368744177664)"
    and "to_float (999 / 10) = Finite (3514918771674317 / 35184372088832)"
    and "to_float (3514918771674317 / 35184372088832) = Finite (3514918771674317 / 35184372088832)"
    and "to_float (225179981368524775 / 2251799813685248) = Finite (7036874417766399 / 70368744177664)"
    and "to_float (425 / 2) = Finite (425 / 2)"
    and "to_float (61924494876344325 / 281474976710656) = Finite (7740561859543041 / 35184372088832)"
    and "to_float (64739244643450875 / 281474976710656) = Finite (8092405580431359 / 35184372088832)"
    and "to_float (33791070954114253 / 140737488355328) = Finite (8447767738528563 / 35184372088832)"
    and "to_float (68511009331373679 / 281474976710656) = Finite (4281938083210855 / 17592186044416)"
    and "to_float (8989607068696575 / 35184372088832) = Finite (8989607068696575 / 35184372088832)"
    and "to_float (29625241298796545 / 17592186044416) = Finite (1684)"
    and "to_float (30856694321905665 / 17592186044416) = Finite (1754)"
    and "to_float (32123331717103615 / 17592186044416) = Finite (1826)"
    and "to_float (67698250336121651 / 35184372088832) = Finite (4231140646007603 / 2199023255552)"
    and "to_float (4267974285538099 / 2199023255552) = Finite (4267974285538099 / 2199023255552)"
    and "to_float (70702995712507903 / 35184372088832) = Finite (4019 / 2)"
    and "to_float (36405269800314471 / 17592186044416) = Finite (4550658725039309 / 2199023255552)"
    and "to_float (4575397736664269 / 2199023255552) = Finite (4575397736664269 / 2199023255552)"
proof -
  show "to_float (1 / 5) = Finite (3602879701896397 / 18014398509481984)"
    by (rule to_float_cert [where e = "- 55" and m = 7205759403792794]) simp_all
  show "to_float (3602879701896397 / 18014398509481984) = Finite (3602879701896397 / 18014398509481984)"
    by (rule to_float_cert [where e = "- 55" and m = 7205759403792794]) simp_all
  show "to_float (1 / 4) = Finite (1 / 4)"
    by (rule to_float_cert [where e = "- 54" and m = 4503599627370496]) simp_all
  show "to_float (5404319552844595 / 18014398509481984) = Finite (5404319552844595 / 18014398509481984)"
    by (rule to_float_cert [where e = "- 54" and m = 5404319552844595]) simp_all
  show "to_float (3 / 10) = Finite (5404319552844595 / 18014398509481984)"
    by (rule to_float_cert [where e = "- 54" and m = 5404319552844595]) simp_all
  show "to_float (45 / 94) = Finite (8623914180071163 / 18014398509481984)"
    by (rule to_float_cert [where e = "- 54" and m = 8623914180071163]) simp_all
  show "to_float (2448832297382707 / 4447304632028365) = Finite (4959660349129533 / 9007199254740992)"
    by (rule to_float_cert [where e = "- 53" and m = 4959660349129533]) simp_all
  show "to_float (67 / 94) = Finite (6420025000719643 / 9007199254740992)"
    by (rule to_float_cert [where e = "- 53" and m = 6420025000719643]) simp_all
  show "to_float (5150992073805005 / 7205759403792794) = Finite (183 / 256)"
    by (rule to_float_cert [where e = "- 53" and m = 6438740092256256]) simp_all
  show "to_float (3462142213541069 / 4447304632028365) = Finite (7011933597045203 / 9007199254740992)"
    by (rule to_float_cert [where e = "- 53" and m = 7011933597045203]) simp_all
  show "to_float (39 / 50) = Finite (3512807709348987 / 4503599627370496)"
    by (rule to_float_cert [where e = "- 53" and m = 7025615418697974]) simp_all
  show "to_float (3512807709348987 / 4503599627370496) = Finite (3512807709348987 / 4503599627370496)"
    by (rule to_float_cert [where e = "- 53" and m = 7025615418697974]) simp_all
  show "to_float (7025615418697974 / 8286623314361713) = Finite (3818269249292377 / 4503599627370496)"
    by (rule to_float_cert [where e = "- 53" and m = 7636538498584754]) simp_all
  show "to_float (7656119366529843 / 9007199254740992) = Finite (7656119366529843 / 9007199254740992)"
    by (rule to_float_cert [where e = "- 53" and m = 7656119366529843]) simp_all
  show "to_float (17 / 20) = Finite (7656119366529843 / 9007199254740992)"
    by (rule to_float_cert [where e = "- 53" and m = 7656119366529843]) simp_all
  show "to_float (3110298492652749 / 3602879701896397) = Finite (221 / 256)"
    by (rule to_float_cert [where e = "- 53" and m = 7775746231631872]) simp_all
  show "to_float (23 / 25) = Finite (8286623314361713 / 9007199254740992)"
    by (rule to_float_cert [where e = "- 53" and m = 8286623314361713]) simp_all
  show "to_float (8286623314361713 / 9007199254740992) = Finite (8286623314361713 / 9007199254740992)"
    by (rule to_float_cert [where e = "- 53" and m = 8286623314361713]) simp_all
  show "to_float (7656119366529843 / 8286623314361713) = Finite (1040233609582859 / 1125899906842624)"
    by (rule to_float_cert [where e = "- 53" and m = 8321868876662872]) simp_all
  show "to_float (2392537302040576 / 2589569785738035) = Finite (4160934438331437 / 4503599627370496)"
    by (rule to_float_cert [where e = "- 53" and m = 8321868876662874]) simp_all
  show "to_float (275219977228197 / 287729976193115) = Finite (8615581895839211 / 9007199254740992)"
    by (rule to_float_cert [where e = "- 53" and m = 8615581895839211]) simp_all
  show "to_float (9007199254740991 / 9007199254740992) = Finite (9007199254740991 / 9007199254740992)"
    by (rule to_float_cert [where e = "- 53" and m = 9007199254740991]) simp_all
  show "to_float (61248954932238749 / 36028797018963968) = Finite (1914029841632461 / 1125899906842624)"
    by (rule to_float_cert [where e = "- 52" and m = 7656119366529844]) simp_all
  show "to_float (8924260225606736202508689955881 / 5070602400912917605986812821504) = Finite (3963167672086037 / 2251799813685248)"
    by (rule to_float_cert [where e = "- 52" and m = 7926335344172074]) simp_all
  show "to_float (9329908417679768192353752359895 / 5070602400912917605986812821504) = Finite (517913957147607 / 281474976710656)"
    by (rule to_float_cert [where e = "- 52" and m = 8286623314361712]) simp_all
  show "to_float (18014398509481985 / 9007199254740992) = Finite (2)"
    by (rule to_float_cert [where e = "- 51" and m = 4503599627370496]) simp_all
  show "to_float (4728779608739021 / 2251799813685248) = Finite (4728779608739021 / 2251799813685248)"
    by (rule to_float_cert [where e = "- 51" and m = 4728779608739021]) simp_all
  show "to_float (2476979795053773 / 1125899906842624) = Finite (2476979795053773 / 1125899906842624)"
    by (rule to_float_cert [where e = "- 51" and m = 4953959590107546]) simp_all
  show "to_float (5122844576133939 / 2251799813685248) = Finite (5122844576133939 / 2251799813685248)"
    by (rule to_float_cert [where e = "- 51" and m = 5122844576133939]) simp_all
  show "to_float (2679641778285445 / 1125899906842624) = Finite (2679641778285445 / 1125899906842624)"
    by (rule to_float_cert [where e = "- 51" and m = 5359283556570890]) simp_all
  show "to_float (5505650544460431 / 2251799813685248) = Finite (5505650544460431 / 2251799813685248)"
    by (rule to_float_cert [where e = "- 51" and m = 5505650544460431]) simp_all
  show "to_float (5623870034678907 / 2251799813685248) = Finite (5623870034678907 / 2251799813685248)"
    by (rule to_float_cert [where e = "- 51" and m = 5623870034678907]) simp_all
  show "to_float (5 / 2) = Finite (5 / 2)"
    by (rule to_float_cert [where e = "- 51" and m = 5629499534213120]) simp_all
  show "to_float (13994862626519650993745735670825 / 5070602400912917605986812821504) = Finite (1553741871442821 / 562949953421312)"
    by (rule to_float_cert [where e = "- 51" and m = 6214967485771284]) simp_all
  show "to_float (102682071504047305 / 36028797018963968) = Finite (6417629469002957 / 2251799813685248)"
    by (rule to_float_cert [where e = "- 51" and m = 6417629469002957]) simp_all
  show "to_float (14907571058683978290774185911255 / 5070602400912917605986812821504) = Finite (6620291452234629 / 2251799813685248)"
    by (rule to_float_cert [where e = "- 51" and m = 6620291452234629]) simp_all
  show "to_float (27021597764222975 / 9007199254740992) = Finite (3)"
    by (rule to_float_cert [where e = "- 51" and m = 6755399441055744]) simp_all
  show "to_float (4345973640412529 / 1125899906842624) = Finite (4345973640412529 / 1125899906842624)"
    by (rule to_float_cert [where e = "- 51" and m = 8691947280825058]) simp_all
  show "to_float (2195504818343117 / 562949953421312) = Finite (2195504818343117 / 562949953421312)"
    by (rule to_float_cert [where e = "- 51" and m = 8782019273372468]) simp_all
  show "to_float (9266156233314795 / 2251799813685248) = Finite (2316539058328699 / 562949953421312)"
    by (rule to_float_cert_tie [where e = "- 50" and f = 4633078116657397]) simp_all
  show "to_float (9 / 2) = Finite (9 / 2)"
    by (rule to_float_cert [where e = "- 50" and m = 5066549580791808]) simp_all
  show "to_float (1874623344892969 / 281474976710656) = Finite (1874623344892969 / 281474976710656)"
    by (rule to_float_cert [where e = "- 50" and m = 7498493379571876]) simp_all
  show "to_float (15312238733059687 / 2251799813685248) = Finite (1914029841632461 / 281474976710656)"
    by (rule to_float_cert_tie [where e = "- 50" and f = 7656119366529843]) simp_all
  show "to_float (15683785702317753 / 2251799813685248) = Finite (1960473212789719 / 281474976710656)"
    by (rule to_float_cert_tie [where e = "- 50" and f = 7841892851158876]) simp_all
  show "to_float (15 / 2) = Finite (15 / 2)"
    by (rule to_float_cert [where e = "- 50" and m = 8444249301319680]) simp_all
  show "to_float (79 / 10) = Finite (4447304632028365 / 562949953421312)"
    by (rule to_float_cert [where e = "- 50" and m = 8894609264056730]) simp_all
  show "to_float (4447304632028365 / 562949953421312) = Finite (4447304632028365 / 562949953421312)"
    by (rule to_float_cert [where e = "- 50" and m = 8894609264056730]) simp_all
  show "to_float (2308094809027379 / 281474976710656) = Finite (2308094809027379 / 281474976710656)"
    by (rule to_float_cert [where e = "- 49" and m = 4616189618054758]) simp_all
  show "to_float (41 / 5) = Finite (2308094809027379 / 281474976710656)"
    by (rule to_float_cert [where e = "- 49" and m = 4616189618054758]) simp_all
  show "to_float (42 / 5) = Finite (4728779608739021 / 562949953421312)"
    by (rule to_float_cert [where e = "- 49" and m = 4728779608739021]) simp_all
  show "to_float (4728779608739021 / 562949953421312) = Finite (4728779608739021 / 562949953421312)"
    by (rule to_float_cert [where e = "- 49" and m = 4728779608739021]) simp_all
  show "to_float (17 / 2) = Finite (17 / 2)"
    by (rule to_float_cert [where e = "- 49" and m = 4785074604081152]) simp_all
  show "to_float (2448832297382707 / 281474976710656) = Finite (2448832297382707 / 281474976710656)"
    by (rule to_float_cert [where e = "- 49" and m = 4897664594765414]) simp_all
  show "to_float (87 / 10) = Finite (2448832297382707 / 281474976710656)"
    by (rule to_float_cert [where e = "- 49" and m = 4897664594765414]) simp_all
  show "to_float (44 / 5) = Finite (2476979795053773 / 281474976710656)"
    by (rule to_float_cert [where e = "- 49" and m = 4953959590107546]) simp_all
  show "to_float (2476979795053773 / 281474976710656) = Finite (2476979795053773 / 281474976710656)"
    by (rule to_float_cert [where e = "- 49" and m = 4953959590107546]) simp_all
  show "to_float (5122844576133939 / 562949953421312) = Finite (5122844576133939 / 562949953421312)"
    by (rule to_float_cert [where e = "- 49" and m = 5122844576133939]) simp_all
  show "to_float (91 / 10) = Finite (5122844576133939 / 562949953421312)"
    by (rule to_float_cert [where e = "- 49" and m = 5122844576133939]) simp_all
  show "to_float (20502637303604183 / 2251799813685248) = Finite (2562829662950523 / 281474976710656)"
    by (rule to_float_cert [where e = "- 49" and m = 5125659325901046]) simp_all
  show "to_float (1821 / 200) = Finite (2562829662950523 / 281474976710656)"
    by (rule to_float_cert [where e = "- 49" and m = 5125659325901046]) simp_all
  show "to_float (2562829662950523 / 281474976710656) = Finite (2562829662950523 / 281474976710656)"
    by (rule to_float_cert [where e = "- 49" and m = 5125659325901046]) simp_all
  show "to_float (1291970143101911 / 140737488355328) = Finite (1291970143101911 / 140737488355328)"
    by (rule to_float_cert [where e = "- 49" and m = 5167880572407644]) simp_all
  show "to_float (459 / 50) = Finite (1291970143101911 / 140737488355328)"
    by (rule to_float_cert [where e = "- 49" and m = 5167880572407644]) simp_all
  show "to_float (10335761144815289 / 1125899906842624) = Finite (1291970143101911 / 140737488355328)"
    by (rule to_float_cert_tie [where e = "- 49" and f = 5167880572407644]) simp_all
  show "to_float (2589569785738035 / 281474976710656) = Finite (2589569785738035 / 281474976710656)"
    by (rule to_float_cert [where e = "- 49" and m = 5179139571476070]) simp_all
  show "to_float (46 / 5) = Finite (2589569785738035 / 281474976710656)"
    by (rule to_float_cert [where e = "- 49" and m = 5179139571476070]) simp_all
  show "to_float (21307655736996659 / 2251799813685248) = Finite (5326913934249165 / 562949953421312)"
    by (rule to_float_cert [where e = "- 49" and m = 5326913934249165]) simp_all
  show "to_float (757 / 80) = Finite (5326913934249165 / 562949953421312)"
    by (rule to_float_cert [where e = "- 49" and m = 5326913934249165]) simp_all
  show "to_float (5326913934249165 / 562949953421312) = Finite (5326913934249165 / 562949953421312)"
    by (rule to_float_cert [where e = "- 49" and m = 5326913934249165]) simp_all
  show "to_float (19 / 2) = Finite (19 / 2)"
    by (rule to_float_cert [where e = "- 49" and m = 5348024557502464]) simp_all
  show "to_float (6699104445713613 / 703687441776640) = Finite (2679641778285445 / 281474976710656)"
    by (rule to_float_cert [where e = "- 49" and m = 5359283556570890]) simp_all
  show "to_float (6882063180575539 / 703687441776640) = Finite (5505650544460431 / 562949953421312)"
    by (rule to_float_cert [where e = "- 49" and m = 5505650544460431]) simp_all
  show "to_float (49 / 5) = Finite (2758454771764429 / 281474976710656)"
    by (rule to_float_cert [where e = "- 49" and m = 5516909543528858]) simp_all
  show "to_float (2758454771764429 / 281474976710656) = Finite (2758454771764429 / 281474976710656)"
    by (rule to_float_cert [where e = "- 49" and m = 5516909543528858]) simp_all
  show "to_float (3514918771674317 / 351843720888320) = Finite (5623870034678907 / 562949953421312)"
    by (rule to_float_cert [where e = "- 49" and m = 5623870034678907]) simp_all
  show "to_float (45 / 4) = Finite (45 / 4)"
    by (rule to_float_cert [where e = "- 49" and m = 6333186975989760]) simp_all
  show "to_float (123 / 10) = Finite (3462142213541069 / 281474976710656)"
    by (rule to_float_cert [where e = "- 49" and m = 6924284427082138]) simp_all
  show "to_float (3462142213541069 / 281474976710656) = Finite (3462142213541069 / 281474976710656)"
    by (rule to_float_cert [where e = "- 49" and m = 6924284427082138]) simp_all
  show "to_float (79 / 5) = Finite (4447304632028365 / 281474976710656)"
    by (rule to_float_cert [where e = "- 49" and m = 8894609264056730]) simp_all
  show "to_float (4447304632028365 / 281474976710656) = Finite (4447304632028365 / 281474976710656)"
    by (rule to_float_cert [where e = "- 49" and m = 8894609264056730]) simp_all
  show "to_float (67 / 4) = Finite (67 / 4)"
    by (rule to_float_cert [where e = "- 48" and m = 4714705859903488]) simp_all
  show "to_float (183 / 10) = Finite (5150992073805005 / 281474976710656)"
    by (rule to_float_cert [where e = "- 48" and m = 5150992073805005]) simp_all
  show "to_float (5150992073805005 / 281474976710656) = Finite (5150992073805005 / 281474976710656)"
    by (rule to_float_cert [where e = "- 48" and m = 5150992073805005]) simp_all
  show "to_float (4267974285538099 / 219902325555200) = Finite (5463007085488767 / 281474976710656)"
    by (rule to_float_cert [where e = "- 48" and m = 5463007085488767]) simp_all
  show "to_float (38817 / 2000) = Finite (5463007085488767 / 281474976710656)"
    by (rule to_float_cert [where e = "- 48" and m = 5463007085488767]) simp_all
  show "to_float (5463007085488767 / 281474976710656) = Finite (5463007085488767 / 281474976710656)"
    by (rule to_float_cert [where e = "- 48" and m = 5463007085488767]) simp_all
  show "to_float (1430596569131909 / 70368744177664) = Finite (1430596569131909 / 70368744177664)"
    by (rule to_float_cert [where e = "- 48" and m = 5722386276527636]) simp_all
  show "to_float (2033 / 100) = Finite (1430596569131909 / 70368744177664)"
    by (rule to_float_cert [where e = "- 48" and m = 5722386276527636]) simp_all
  show "to_float (732063637866283 / 35184372088832) = Finite (732063637866283 / 35184372088832)"
    by (rule to_float_cert [where e = "- 48" and m = 5856509102930264]) simp_all
  show "to_float (41613 / 2000) = Finite (732063637866283 / 35184372088832)"
    by (rule to_float_cert [where e = "- 48" and m = 5856509102930264]) simp_all
  show "to_float (4575397736664269 / 219902325555200) = Finite (732063637866283 / 35184372088832)"
    by (rule to_float_cert [where e = "- 48" and m = 5856509102930264]) simp_all
  show "to_float (221 / 10) = Finite (3110298492652749 / 140737488355328)"
    by (rule to_float_cert [where e = "- 48" and m = 6220596985305498]) simp_all
  show "to_float (3110298492652749 / 140737488355328) = Finite (3110298492652749 / 140737488355328)"
    by (rule to_float_cert [where e = "- 48" and m = 6220596985305498]) simp_all
  show "to_float (52692115640234805 / 2251799813685248) = Finite (6586514455029351 / 281474976710656)"
    by (rule to_float_cert [where e = "- 48" and m = 6586514455029351]) simp_all
  show "to_float (47 / 2) = Finite (47 / 2)"
    by (rule to_float_cert [where e = "- 48" and m = 6614661952700416]) simp_all
  show "to_float (114841790497947645 / 4503599627370496) = Finite (51 / 2)"
    by (rule to_float_cert [where e = "- 48" and m = 7177611906121728]) simp_all
  show "to_float (128 / 5) = Finite (3602879701896397 / 140737488355328)"
    by (rule to_float_cert [where e = "- 48" and m = 7205759403792794]) simp_all
  show "to_float (3602879701896397 / 140737488355328) = Finite (3602879701896397 / 140737488355328)"
    by (rule to_float_cert [where e = "- 48" and m = 7205759403792794]) simp_all
  show "to_float (124299349715425695 / 4503599627370496) = Finite (3884354678607053 / 140737488355328)"
    by (rule to_float_cert [where e = "- 48" and m = 7768709357214106]) simp_all
  show "to_float (1684358238295149 / 35184372088832) = Finite (1684358238295149 / 35184372088832)"
    by (rule to_float_cert [where e = "- 47" and m = 6737432953180596]) simp_all
  show "to_float (215597854501779075 / 4503599627370496) = Finite (1684358238295149 / 35184372088832)"
    by (rule to_float_cert [where e = "- 47" and m = 6737432953180596]) simp_all
  show "to_float (598404255319149 / 12500000000000) = Finite (1684358238295149 / 35184372088832)"
    by (rule to_float_cert [where e = "- 47" and m = 6737432953180596]) simp_all
  show "to_float (7749469295514895 / 140737488355328) = Finite (7749469295514895 / 140737488355328)"
    by (rule to_float_cert [where e = "- 47" and m = 7749469295514895]) simp_all
  show "to_float (110126582278481 / 2000000000000) = Finite (7749469295514895 / 140737488355328)"
    by (rule to_float_cert [where e = "- 47" and m = 7749469295514895]) simp_all
  show "to_float (123991508728238325 / 2251799813685248) = Finite (7749469295514895 / 140737488355328)"
    by (rule to_float_cert [where e = "- 47" and m = 7749469295514895]) simp_all
  show "to_float (5015644531812221 / 70368744177664) = Finite (5015644531812221 / 70368744177664)"
    by (rule to_float_cert [where e = "- 46" and m = 5015644531812221]) simp_all
  show "to_float (160500625017991075 / 2251799813685248) = Finite (5015644531812221 / 70368744177664)"
    by (rule to_float_cert [where e = "- 46" and m = 5015644531812221]) simp_all
  show "to_float (1425531914893617 / 20000000000000) = Finite (5015644531812221 / 70368744177664)"
    by (rule to_float_cert [where e = "- 46" and m = 5015644531812221]) simp_all
  show "to_float (4575 / 64) = Finite (4575 / 64)"
    by (rule to_float_cert [where e = "- 46" and m = 5030265697075200]) simp_all
  show "to_float (175298339926130075 / 2251799813685248) = Finite (5478073122691565 / 70368744177664)"
    by (rule to_float_cert [where e = "- 46" and m = 5478073122691565]) simp_all
  show "to_float (7784810126582279 / 100000000000000) = Finite (5478073122691565 / 70368744177664)"
    by (rule to_float_cert [where e = "- 46" and m = 5478073122691565]) simp_all
  show "to_float (5478073122691565 / 70368744177664) = Finite (5478073122691565 / 70368744177664)"
    by (rule to_float_cert [where e = "- 46" and m = 5478073122691565]) simp_all
  show "to_float (23700193039037235 / 281474976710656) = Finite (5925048259759309 / 70368744177664)"
    by (rule to_float_cert [where e = "- 46" and m = 5925048259759309]) simp_all
  show "to_float (8478260869565217 / 100000000000000) = Finite (5966045702019339 / 70368744177664)"
    by (rule to_float_cert [where e = "- 46" and m = 5966045702019339]) simp_all
  show "to_float (5966045702019339 / 70368744177664) = Finite (5966045702019339 / 70368744177664)"
    by (rule to_float_cert [where e = "- 46" and m = 5966045702019339]) simp_all
  show "to_float (95456731232309425 / 1125899906842624) = Finite (5966045702019339 / 70368744177664)"
    by (rule to_float_cert [where e = "- 46" and m = 5966045702019339]) simp_all
  show "to_float (5525 / 64) = Finite (5525 / 64)"
    by (rule to_float_cert [where e = "- 46" and m = 6074801743462400]) simp_all
  show "to_float (24685355457524531 / 281474976710656) = Finite (6171338864381133 / 70368744177664)"
    by (rule to_float_cert [where e = "- 46" and m = 6171338864381133]) simp_all
  show "to_float (25698665373682893 / 281474976710656) = Finite (6424666343420723 / 70368744177664)"
    by (rule to_float_cert [where e = "- 46" and m = 6424666343420723]) simp_all
  show "to_float (26005840239571475 / 281474976710656) = Finite (6501460059892869 / 70368744177664)"
    by (rule to_float_cert [where e = "- 46" and m = 6501460059892869]) simp_all
  show "to_float (6501460059892869 / 70368744177664) = Finite (6501460059892869 / 70368744177664)"
    by (rule to_float_cert [where e = "- 46" and m = 6501460059892869]) simp_all
  show "to_float (577445652173913 / 6250000000000) = Finite (6501460059892869 / 70368744177664)"
    by (rule to_float_cert [where e = "- 46" and m = 6501460059892869]) simp_all
  show "to_float (3250730029946435 / 35184372088832) = Finite (3250730029946435 / 35184372088832)"
    by (rule to_float_cert [where e = "- 46" and m = 6501460059892870]) simp_all
  show "to_float (104023360958285925 / 1125899906842624) = Finite (3250730029946435 / 35184372088832)"
    by (rule to_float_cert [where e = "- 46" and m = 6501460059892870]) simp_all
  show "to_float (923913043478261 / 10000000000000) = Finite (3250730029946435 / 35184372088832)"
    by (rule to_float_cert [where e = "- 46" and m = 6501460059892870]) simp_all
  show "to_float (476 / 5) = Finite (6699104445713613 / 70368744177664)"
    by (rule to_float_cert [where e = "- 46" and m = 6699104445713613]) simp_all
  show "to_float (6699104445713613 / 70368744177664) = Finite (6699104445713613 / 70368744177664)"
    by (rule to_float_cert [where e = "- 46" and m = 6699104445713613]) simp_all
  show "to_float (215389547395980275 / 2251799813685248) = Finite (210341354878887 / 2199023255552)"
    by (rule to_float_cert [where e = "- 46" and m = 6730923356124384]) simp_all
  show "to_float (210341354878887 / 2199023255552) = Finite (210341354878887 / 2199023255552)"
    by (rule to_float_cert [where e = "- 46" and m = 6730923356124384]) simp_all
  show "to_float (191304347826087 / 2000000000000) = Finite (210341354878887 / 2199023255552)"
    by (rule to_float_cert [where e = "- 46" and m = 6730923356124384]) simp_all
  show "to_float (6882063180575539 / 70368744177664) = Finite (6882063180575539 / 70368744177664)"
    by (rule to_float_cert [where e = "- 46" and m = 6882063180575539]) simp_all
  show "to_float (489 / 5) = Finite (6882063180575539 / 70368744177664)"
    by (rule to_float_cert [where e = "- 46" and m = 6882063180575539]) simp_all
  show "to_float (999 / 10) = Finite (3514918771674317 / 35184372088832)"
    by (rule to_float_cert [where e = "- 46" and m = 7029837543348634]) simp_all
  show "to_float (3514918771674317 / 35184372088832) = Finite (3514918771674317 / 35184372088832)"
    by (rule to_float_cert [where e = "- 46" and m = 7029837543348634]) simp_all
  show "to_float (225179981368524775 / 2251799813685248) = Finite (7036874417766399 / 70368744177664)"
    by (rule to_float_cert [where e = "- 46" and m = 7036874417766399]) simp_all
  show "to_float (425 / 2) = Finite (425 / 2)"
    by (rule to_float_cert [where e = "- 45" and m = 7476679068876800]) simp_all
  show "to_float (61924494876344325 / 281474976710656) = Finite (7740561859543041 / 35184372088832)"
    by (rule to_float_cert [where e = "- 45" and m = 7740561859543041]) simp_all
  show "to_float (64739244643450875 / 281474976710656) = Finite (8092405580431359 / 35184372088832)"
    by (rule to_float_cert [where e = "- 45" and m = 8092405580431359]) simp_all
  show "to_float (33791070954114253 / 140737488355328) = Finite (8447767738528563 / 35184372088832)"
    by (rule to_float_cert [where e = "- 45" and m = 8447767738528563]) simp_all
  show "to_float (68511009331373679 / 281474976710656) = Finite (4281938083210855 / 17592186044416)"
    by (rule to_float_cert [where e = "- 45" and m = 8563876166421710]) simp_all
  show "to_float (8989607068696575 / 35184372088832) = Finite (8989607068696575 / 35184372088832)"
    by (rule to_float_cert [where e = "- 45" and m = 8989607068696575]) simp_all
  show "to_float (29625241298796545 / 17592186044416) = Finite (1684)"
    by (rule to_float_cert [where e = "- 42" and m = 7406310324699136]) simp_all
  show "to_float (30856694321905665 / 17592186044416) = Finite (1754)"
    by (rule to_float_cert [where e = "- 42" and m = 7714173580476416]) simp_all
  show "to_float (32123331717103615 / 17592186044416) = Finite (1826)"
    by (rule to_float_cert [where e = "- 42" and m = 8030832929275904]) simp_all
  show "to_float (67698250336121651 / 35184372088832) = Finite (4231140646007603 / 2199023255552)"
    by (rule to_float_cert [where e = "- 42" and m = 8462281292015206]) simp_all
  show "to_float (4267974285538099 / 2199023255552) = Finite (4267974285538099 / 2199023255552)"
    by (rule to_float_cert [where e = "- 42" and m = 8535948571076198]) simp_all
  show "to_float (70702995712507903 / 35184372088832) = Finite (4019 / 2)"
    by (rule to_float_cert [where e = "- 42" and m = 8837874464063488]) simp_all
  show "to_float (36405269800314471 / 17592186044416) = Finite (4550658725039309 / 2199023255552)"
    by (rule to_float_cert [where e = "- 41" and m = 4550658725039309]) simp_all
  show "to_float (4575397736664269 / 2199023255552) = Finite (4575397736664269 / 2199023255552)"
    by (rule to_float_cert [where e = "- 41" and m = 4575397736664269]) simp_all
qed

lemmas eval_defs =
  composite_score_def complexity_score_def book_complexity_score_def
  create_advanced_metrics_dashboard_def py_binop_def py_bind_def getitem_def fl_def float_lit_def
  load_advanced_data_def float_of_int_def fsub_def show_fields_def structural_display_def
  linguistic_display_def historical_display_def init_def

lemma composite_coran:
  "fst (create_advanced_metrics_dashboard init ''Coran'') = Inr (Some (fl (94625 / 10000)))"
  by (simp add: eval_defs binary64_steps)

lemma composite_torah:
  "fst (create_advanced_metrics_dashboard init ''Torah'') = Inr (Some (fl (918 / 100)))"
  by (simp add: eval_defs binary64_steps)

lemma composite_bible:
  "fst (create_advanced_metrics_dashboard init ''Bible'') = Inr (Some (fl (9105 / 1000)))"
  by (simp add: eval_defs binary64_steps)

lemma complexity_coran:
  "book_complexity_score load_advanced_data ''Coran'' = Inr (fl (2033 / 100))"
  by (simp add: eval_defs binary64_steps)

lemma complexity_torah:
  "book_complexity_score load_advanced_data ''Torah'' = Inr (fl (208065 / 10000))"
  by (simp add: eval_defs binary64_steps)

lemma complexity_bible:
  "book_complexity_score load_advanced_data ''Bible'' = Inr (fl (194085 / 10000))"
  by (simp add: eval_defs binary64_steps)

lemmas radar_defs =
  normalized_def max_vals_def column_of_def metric_of_def structural_metrics_def book_names_def
  py_gt_def

lemma normalized_coran:
  "normalized load_advanced_data ''Coran'' =
     Inr [fl 100, fl (9239130434782608 / 10 ^ 14), fl (7784810126582279 / 10 ^ 14), fl 100, fl 100]"
  by (simp add: radar_defs eval_defs binary64_steps)

lemma normalized_torah:
  "normalized load_advanced_data ''Torah'' =
     Inr [fl (71484375 / 10 ^ 6), fl (8478260869565217 / 10 ^ 14),
          fl (550632911392405 / 10 ^ 13), fl (4787234042553192 / 10 ^ 14),
          fl (956521739130435 / 10 ^ 13)]"
  by (simp add: radar_defs eval_defs binary64_steps)

lemma normalized_bible:
  "normalized load_advanced_data ''Bible'' =
     Inr [fl (86328125 / 10 ^ 6), fl 100, fl 100, fl (7127659574468085 / 10 ^ 14),
          fl (923913043478261 / 10 ^ 13)]"
  by (simp add: radar_defs eval_defs binary64_steps)

text \<open>The structure page of the static dataset: it is displayed without an exception, with
  these radar values and complexity indices.\<close>

lemma structure_page_static_dataset:
  "fst (create_structural_analysis init) =
     Inr ([[fl 100, fl (9239130434782608 / 10 ^ 14), fl (7784810126582279 / 10 ^ 14),
            fl 100, fl 100],
           [fl (71484375 / 10 ^ 6), fl (8478260869565217 / 10 ^ 14),
            fl (550632911392405 / 10 ^ 13), fl (4787234042553192 / 10 ^ 14),
            fl (956521739130435 / 10 ^ 13)],
           [fl (86328125 / 10 ^ 6), fl 100, fl 100, fl (7127659574468085 / 10 ^ 14),
            fl (923913043478261 / 10 ^ 13)]],
          [fl (2033 / 100), fl (208065 / 10000), fl (194085 / 10000)])"
  by (simp add: create_structural_analysis_def init_def normalized_coran normalized_torah
      normalized_bible complexity_coran complexity_torah complexity_bible book_names_def
      py_bind_def)

section \<open>Reading a book record\<close>

lemma py_map_getitem_present:
  "list_all (\<lambda>f. map_of d f \<noteq> None) names \<Longrightarrow> \<exists>vs. py_map (getitem d) names = Inr vs"
  by (induction names) (auto simp: getitem_def py_bind_def)

lemma has_fields_section:
  assumes "has_fields bd section names"
  obtains data where "getitem bd section = Inr data"
    and "list_all (\<lambda>f. map_of data f \<noteq> None) names"
  using assms by (auto simp: has_fields_def getitem_def split: option.splits)

lemma present_getitem:
  "list_all (\<lambda>f. map_of d f \<noteq> None) names \<Longrightarrow> f \<in> set names \<Longrightarrow> \<exists>v. getitem d f = Inr v"
  by (auto simp: list_all_iff getitem_def)

lemma py_mul_is_float: "py_mul x (PyFloat c) = Inr v \<Longrightarrow> \<exists>f. v = PyFloat f"
  by (cases x) (auto simp: py_binop_def py_bind_def split: sum.splits)

lemma py_add_is_float: "py_add x (PyFloat c) = Inr v \<Longrightarrow> \<exists>f. v = PyFloat f"
  by (cases x) (auto simp: py_binop_def py_bind_def split: sum.splits)

text \<open>The composite score is a float, so formatting it never raises.\<close>

lemma composite_score_formats:
  assumes "composite_score structural linguistic historical = Inr v"
  shows "py_format spec v = Inr ()"
proof -
  from assms obtain a q b where "py_mul q (fl (25 / 100)) = Inr b" and "py_add a b = Inr v"
    unfolding composite_score_def py_binop_def py_bind_def
    by (auto split: sum.splits)
  then obtain f where "v = PyFloat f"
    using py_mul_is_float py_add_is_float by (metis fl_def)
  then show ?thesis by simp
qed

text \<open>The overview page formats the fields of the record, then shows its composite score.\<close>

lemma overview_page_steps:
  assumes "selected_book \<noteq> []" and "getitem (books_data self) selected_book = Inr bd"
  shows "create_advanced_metrics_dashboard self selected_book
    = (py_bind (show_book bd) (\<lambda>_. py_bind (record_composite_score bd)
        (\<lambda>score. Inr (Some score))), self)"
  using assms(1)
  by (auto simp: create_advanced_metrics_dashboard_def show_book_def record_composite_score_def
      assms(2) py_bind_def composite_score_formats split: sum.splits)

lemma record_composite_formula:
  assumes "is_book_record bd"
  shows "\<exists>structural linguistic historical tc sd li op.
      getitem bd ''structural_analysis'' = Inr structural
    \<and> getitem bd ''linguistic_features'' = Inr linguistic
    \<and> getitem bd ''historical_impact'' = Inr historical
    \<and> getitem structural ''thematic_cohesion'' = Inr tc
    \<and> getitem linguistic ''semantic_density'' = Inr sd
    \<and> getitem historical ''legal_influence'' = Inr li
    \<and> getitem linguistic ''oral_preservation'' = Inr op
    \<and> record_composite_score bd = documented_composite tc sd li op"
proof -
  from assms obtain structural where s: "getitem bd ''structural_analysis'' = Inr structural"
    and sf: "list_all (\<lambda>f. map_of structural f \<noteq> None) structural_fields"
    unfolding is_book_record_def by (blast elim: has_fields_section)
  from assms obtain linguistic where l: "getitem bd ''linguistic_features'' = Inr linguistic"
    and lf: "list_all (\<lambda>f. map_of linguistic f \<noteq> None) linguistic_fields"
    unfolding is_book_record_def by (blast elim: has_fields_section)
  from assms obtain historical where h: "getitem bd ''historical_impact'' = Inr historical"
    and hf: "list_all (\<lambda>f. map_of historical f \<noteq> None) historical_fields"
    unfolding is_book_record_def by (blast elim: has_fields_section)
  from present_getitem [OF sf, of "''thematic_cohesion''"]
  obtain tc where tc: "getitem structural ''thematic_cohesion'' = Inr tc"
    by (auto simp: structural_fields_def)
  from present_getitem [OF lf, of "''semantic_density''"]
  obtain sd where sd: "getitem linguistic ''semantic_density'' = Inr sd"
    by (auto simp: linguistic_fields_def)
  from present_getitem [OF lf, of "''oral_preservation''"]
  obtain op where op: "getitem linguistic ''oral_preservation'' = Inr op"
    by (auto simp: linguistic_fields_def)
  from present_getitem [OF hf, of "''legal_influence''"]
  obtain li where li: "getitem historical ''legal_influence'' = Inr li"
    by (auto simp: historical_fields_def)
  have "composite_score structural linguistic historical = documented_composite tc sd li op"
    by (simp add: composite_score_def documented_composite_def tc sd li op)
  then have "record_composite_score bd = documented_composite tc sd li op"
    by (simp add: record_composite_score_def s l h py_bind_def)
  with s l h tc sd li op show ?thesis by blast
qed

lemma overview_page_formula:
  assumes "selected_book \<noteq> []" and "book_record_at (books_data self) selected_book"
  shows "\<exists>bd tc sd li op.
      getitem (books_data self) selected_book = Inr bd
    \<and> metric_of (books_data self) selected_book ''structural_analysis'' ''thematic_cohesion'' = Inr tc
    \<and> metric_of (books_data self) selected_book ''linguistic_features'' ''semantic_density'' = Inr sd
    \<and> metric_of (books_data self) selected_book ''historical_impact'' ''legal_influence'' = Inr li
    \<and> metric_of (books_data self) selected_book ''linguistic_features'' ''oral_preservation'' = Inr op
    \<and> record_composite_score bd = documented_composite tc sd li op
    \<and> create_advanced_metrics_dashboard self selected_book
        = (py_bind (show_book bd) (\<lambda>_. py_bind (documented_composite tc sd li op)
            (\<lambda>score. Inr (Some score))), self)"
proof -
  from assms(2) obtain bd where bd: "getitem (books_data self) selected_book = Inr bd"
    and rec: "is_book_record bd"
    by (auto simp: book_record_at_def getitem_def split: option.splits)
  from record_composite_formula [OF rec] obtain structural linguistic historical tc sd li op
    where f: "getitem bd ''structural_analysis'' = Inr structural"
      "getitem bd ''linguistic_features'' = Inr linguistic"
      "getitem bd ''historical_impact'' = Inr historical"
      "getitem structural ''thematic_cohesion'' = Inr tc"
      "getitem linguistic ''semantic_density'' = Inr sd"
      "getitem historical ''legal_influence'' = Inr li"
      "getitem linguistic ''oral_preservation'' = Inr op"
    and c: "record_composite_score bd = documented_composite tc sd li op" by blast
  have "metric_of (books_data self) selected_book ''structural_analysis'' ''thematic_cohesion'' = Inr tc"
    "metric_of (books_data self) selected_book ''linguistic_features'' ''semantic_density'' = Inr sd"
    "metric_of (books_data self) selected_book ''historical_impact'' ''legal_influence'' = Inr li"
    "metric_of (books_data self) selected_book ''linguistic_features'' ''oral_preservation'' = Inr op"
    by (simp_all add: metric_of_def bd f py_bind_def)
  moreover have "create_advanced_metrics_dashboard self selected_book
        = (py_bind (show_book bd) (\<lambda>_. py_bind (documented_composite tc sd li op)
            (\<lambda>score. Inr (Some score))), self)"
    using overview_page_steps [OF assms(1) bd] by (simp add: c)
  ultimately show ?thesis using bd c by blast
qed

lemma static_records:
  "book_record_at load_advanced_data ''Coran''"
  "book_record_at load_advanced_data ''Torah''"
  "book_record_at load_advanced_data ''Bible''"
  by (simp_all add: book_record_at_def is_book_record_def has_fields_def load_advanced_data_def
      structural_fields_def linguistic_fields_def historical_fields_def)


text \<open>Every field of the static dataset is formatted without an exception.\<close>

lemma static_show_book:
  "getitem load_advanced_data ''Coran'' = Inr bd \<Longrightarrow> show_book bd = Inr ()"
  "getitem load_advanced_data ''Torah'' = Inr bd \<Longrightarrow> show_book bd = Inr ()"
  "getitem load_advanced_data ''Bible'' = Inr bd \<Longrightarrow> show_book bd = Inr ()"
  by (auto simp: load_advanced_data_def getitem_def show_book_def show_fields_def
      structural_display_def linguistic_display_def historical_display_def fl_def py_bind_def)

text \<open>An int of more than 4300 digits among the fields makes the overview page raise
  ValueError before the score is computed, although the record supplies every field.\<close>

lemma overview_page_long_int:
  assumes "10 ^ max_str_digits \<le> \<bar>n\<bar>"
    and "set_field load_advanced_data ''Coran'' ''linguistic_features'' ''unique_words'' (PyInt n)
           = Inr bs"
  shows "book_record_at bs ''Coran''"
    and "fst (create_advanced_metrics_dashboard \<lparr>books_data = bs\<rparr> ''Coran'') = Inl ValueError"
proof -
  have f: "py_format Grouped (PyInt n) = Inl ValueError"
    using assms(1) by (simp add: py_format.simps)
  have bs: "bs = setitem load_advanced_data ''Coran''
      [(''structural_analysis'',
        [(''avg_verse_length'', fl (256 / 10)), (''vocabulary_richness'', fl (85 / 100)),
         (''repetition_rate'', fl (123 / 10)), (''rhythmic_patterns'', PyInt 94),
         (''thematic_cohesion'', fl (92 / 10))]),
       (''linguistic_features'',
        [(''unique_words'', PyInt n), (''root_words'', PyInt 1726),
         (''grammatical_complexity'', fl (87 / 10)), (''semantic_density'', fl (91 / 10)),
         (''oral_preservation'', fl (999 / 10))]),
       (''historical_impact'',
        [(''manuscripts_earliest'', PyInt 642), (''translations_timeline'', PyInt 112),
         (''academic_studies'', PyInt 125000), (''cultural_references'', PyInt 890000),
         (''legal_influence'', fl (95 / 10))])]"
    using assms(2)
    by (simp add: set_field_def load_advanced_data_def getitem_def py_bind_def)
  show "book_record_at bs ''Coran''"
    by (simp add: bs load_advanced_data_def book_record_at_def is_book_record_def has_fields_def
        structural_fields_def linguistic_fields_def historical_fields_def)
  show "fst (create_advanced_metrics_dashboard \<lparr>books_data = bs\<rparr> ''Coran'') = Inl ValueError"
    by (simp add: bs load_advanced_data_def create_advanced_metrics_dashboard_def getitem_def
        show_fields_def structural_display_def linguistic_display_def historical_display_def
        fl_def py_bind_def f)
qed

section \<open>Bounds through rounding\<close>

lemma to_float_Finite_iff:
  "to_float x = Finite r \<longleftrightarrow> r = round_binary64 x \<and> r < 2 ^ 1024 \<and> - (2 ^ 1024) < r"
  by (auto simp: to_float_def Let_def)

lemma to_float_between:
  assumes "lo \<le> x" and "x \<le> hi" and "to_float lo = Finite lo'" and "to_float hi = Finite hi'"
  shows "\<exists>r. to_float x = Finite r \<and> lo' \<le> r \<and> r \<le> hi'"
proof -
  from assms(3,4) have lo: "lo' = round_binary64 lo" "- (2 ^ 1024) < lo'"
    and hi: "hi' = round_binary64 hi" "hi' < 2 ^ 1024"
    by (simp_all add: to_float_Finite_iff)
  have 1: "lo' \<le> round_binary64 x" unfolding lo(1) using assms(1) by (rule round_binary64_mono)
  have 2: "round_binary64 x \<le> hi'" unfolding hi(1) using assms(2) by (rule round_binary64_mono)
  have "to_float x = Finite (round_binary64 x)"
    using 1 2 lo(2) hi(2) by (simp add: to_float_Finite_iff)
  with 1 2 show ?thesis by simp
qed

lemma as_float_in_range:
  assumes "in_range lo hi v" and "to_float lo = Finite lo" and "to_float hi = Finite hi"
  shows "\<exists>a. as_float v = Inr (Finite a) \<and> lo \<le> a \<and> a \<le> hi"
proof (cases v)
  case (PyInt n)
  with assms(1) have "lo \<le> of_int n" "of_int n \<le> hi" by simp_all
  from to_float_between [OF this assms(2,3)] show ?thesis
    by (auto simp: PyInt float_of_int_def)
next
  case (PyFloat f)
  with assms(1) show ?thesis by (cases f) simp_all
qed

lemma py_mul_range:
  assumes "in_range 0 A v" and "to_float A = Finite A" and "0 \<le> c"
    and "to_float (A * c) = Finite B"
  shows "\<exists>r. py_mul v (PyFloat (Finite c)) = Inr (PyFloat (Finite r)) \<and> 0 \<le> r \<and> r \<le> B"
proof -
  from as_float_in_range [OF assms(1) _ assms(2)]
  obtain a where a: "as_float v = Inr (Finite a)" "0 \<le> a" "a \<le> A" by auto
  have "0 * c \<le> a * c" "a * c \<le> A * c"
    using a(2,3) assms(3) by (simp_all add: mult_right_mono)
  then have "0 \<le> a * c" "a * c \<le> A * c" by simp_all
  from to_float_between [OF this _ assms(4), of 0]
  obtain r where "to_float (a * c) = Finite r" "0 \<le> r" "r \<le> B" by auto
  then show ?thesis
    using a(1) by (cases v) (auto simp: py_binop_def py_bind_def)
qed

lemma py_add_range:
  assumes "0 \<le> a" and "a \<le> A" and "0 \<le> b" and "b \<le> B" and "to_float (A + B) = Finite C"
  shows "\<exists>r. py_add (PyFloat (Finite a)) (PyFloat (Finite b)) = Inr (PyFloat (Finite r))
    \<and> 0 \<le> r \<and> r \<le> C"
proof -
  have "0 \<le> a + b" "a + b \<le> A + B" using assms(1-4) by simp_all
  from to_float_between [OF this _ assms(5), of 0]
  obtain r where "to_float (a + b) = Finite r" "0 \<le> r" "r \<le> C" by auto
  then show ?thesis by (auto simp: py_binop_def py_bind_def)
qed

lemma py_truediv_range:
  assumes "in_range 0 A v" and "to_float A = Finite A" and "0 < d" and "d < 2 ^ 53"
    and "to_float (A / of_int d) = Finite B"
  shows "\<exists>r. py_truediv v (PyInt d) = Inr (PyFloat (Finite r)) \<and> 0 \<le> r \<and> r \<le> B"
proof -
  have d: "to_float (of_int d) = Finite (of_int d)"
    using assms(3,4) by (intro to_float_of_int) simp
  have dpos: "0 < (of_int d :: rat)" using assms(3) by simp
  show ?thesis
  proof (cases v)
    case (PyInt n)
    with assms(1) have "0 \<le> (of_int n :: rat)" "(of_int n :: rat) \<le> A" by simp_all
    then have "0 \<le> (of_int n :: rat) / of_int d" "(of_int n :: rat) / of_int d \<le> A / of_int d"
      using dpos by (simp_all add: divide_right_mono)
    from to_float_between [OF this _ assms(5), of 0]
    obtain r where "to_float (of_int n / of_int d) = Finite r" "0 \<le> r" "r \<le> B" by auto
    then show ?thesis using assms(3) by (auto simp: PyInt)
  next
    case (PyFloat f)
    with assms(1) obtain q where f: "f = Finite q" and q: "0 \<le> q" "q \<le> A"
      by (cases f) simp_all
    have "0 \<le> q / of_int d" "q / of_int d \<le> A / of_int d"
      using q dpos by (simp_all add: divide_right_mono)
    from to_float_between [OF this _ assms(5), of 0]
    obtain r where "to_float (q / of_int d) = Finite r" "0 \<le> r" "r \<le> B" by auto
    then show ?thesis
      using assms(3) by (auto simp: PyFloat f py_binop_def py_bind_def float_of_int_def d)
  qed
qed

lemma documented_composite_range:
  assumes "in_range 0 10 tc" and "in_range 0 10 sd" and "in_range 0 10 li" and "in_range 0 100 op"
  shows "\<exists>r. documented_composite tc sd li op = Inr (PyFloat (Finite r)) \<and> 0 \<le> r \<and> r \<le> 10"
proof -
  define c02 :: rat where "c02 = 3602879701896397 / 18014398509481984"
  define c025 :: rat where "c025 = 1 / 4"
  define c03 :: rat where "c03 = 5404319552844595 / 18014398509481984"
  have lit: "fl (20 / 100) = PyFloat (Finite c02)" "fl (25 / 100) = PyFloat (Finite c025)"
    "fl (30 / 100) = PyFloat (Finite c03)"
    by (simp_all add: fl_def float_lit_def binary64_steps c02_def c025_def c03_def)
  have ten: "to_float 10 = Finite 10" and hundred: "to_float 100 = Finite 100" by simp_all
  have pos: "0 \<le> c02" "0 \<le> c025" "0 \<le> c03" by (simp_all add: c02_def c025_def c03_def)
  have m1: "to_float (10 * c02) = Finite 2" and m2: "to_float (10 * c025) = Finite (5 / 2)"
    and m3: "to_float (10 * c03) = Finite 3"
    by (simp_all add: c02_def c025_def c03_def binary64_steps)
  have a1: "to_float (2 + 5 / 2) = Finite (9 / 2)" and a2: "to_float (9 / 2 + 3) = Finite (15 / 2)"
    and a3: "to_float (15 / 2 + 5 / 2) = Finite 10" and d: "to_float (100 / of_int 10) = Finite 10"
    by (simp_all add: binary64_steps)
  from py_mul_range [OF assms(1) ten pos(1) m1]
  obtain t1 where t1: "py_mul tc (PyFloat (Finite c02)) = Inr (PyFloat (Finite t1))"
    "0 \<le> t1" "t1 \<le> 2" by blast
  from py_mul_range [OF assms(2) ten pos(2) m2]
  obtain t2 where t2: "py_mul sd (PyFloat (Finite c025)) = Inr (PyFloat (Finite t2))"
    "0 \<le> t2" "t2 \<le> 5 / 2" by blast
  from py_add_range [OF t1(2,3) t2(2,3) a1]
  obtain s1 where s1: "py_add (PyFloat (Finite t1)) (PyFloat (Finite t2)) = Inr (PyFloat (Finite s1))"
    "0 \<le> s1" "s1 \<le> 9 / 2" by blast
  from py_mul_range [OF assms(3) ten pos(3) m3]
  obtain t3 where t3: "py_mul li (PyFloat (Finite c03)) = Inr (PyFloat (Finite t3))"
    "0 \<le> t3" "t3 \<le> 3" by blast
  from py_add_range [OF s1(2,3) t3(2,3) a2]
  obtain s2 where s2: "py_add (PyFloat (Finite s1)) (PyFloat (Finite t3)) = Inr (PyFloat (Finite s2))"
    "0 \<le> s2" "s2 \<le> 15 / 2" by blast
  have "(0::int) < 10" "(10::int) < 2 ^ 53" by simp_all
  from py_truediv_range [OF assms(4) hundred this d]
  obtain q where q: "py_truediv op (PyInt 10) = Inr (PyFloat (Finite q))" "0 \<le> q" "q \<le> 10"
    by blast
  have "in_range 0 10 (PyFloat (Finite q))" using q(2,3) by simp
  from py_mul_range [OF this ten pos(2) m2]
  obtain t4 where t4: "py_mul (PyFloat (Finite q)) (PyFloat (Finite c025)) = Inr (PyFloat (Finite t4))"
    "0 \<le> t4" "t4 \<le> 5 / 2" by blast
  from py_add_range [OF s2(2,3) t4(2,3) a3]
  obtain s3 where s3: "py_add (PyFloat (Finite s2)) (PyFloat (Finite t4)) = Inr (PyFloat (Finite s3))"
    "0 \<le> s3" "s3 \<le> 10" by blast
  have "documented_composite tc sd li op = Inr (PyFloat (Finite s3))"
    unfolding documented_composite_def lit py_binop_def py_bind_def
    by (simp only: sum.case t1(1) t2(1) s1(1) t3(1) s2(1) q(1) t4(1) s3(1))
  with s3(2,3) show ?thesis by blast
qed


section \<open>Changing a field\<close>

lemma map_of_setitem: "map_of (setitem d k v) k' = (if k' = k then Some v else map_of d k')"
  by (induction d) auto

lemma set_field_other_book:
  assumes "a \<noteq> b" and "set_field bs a section field v = Inr bs'"
  shows "getitem bs' b = getitem bs b"
  using assms
  by (auto simp: set_field_def py_bind_def getitem_def map_of_setitem split: sum.splits)

section \<open>The radar normaliser\<close>

lemma representable_on_grid:
  assumes "round_binary64 x = x" and "0 < x"
  obtains k where "x = of_int k * 2 powi ulp_exponent x" and "0 < k"
proof -
  define k where "k = round_half_even (x / 2 powi ulp_exponent x)"
  have x: "x = of_int k * 2 powi ulp_exponent x"
    using assms by (simp add: round_binary64_pos k_def)
  have "0 < of_int k * (2::rat) powi ulp_exponent x" using x assms(2) by simp
  then have "0 < (of_int k :: rat)" using pow2_pos [of "ulp_exponent x"]
    by (simp add: zero_less_mult_iff)
  then have "0 < k" by simp
  with x that show ?thesis by blast
qed

lemma grid_gap:
  fixes a b :: rat
  assumes "a = of_int ka * 2 powi p" and "b = of_int kb * 2 powi q" and "p \<le> q" and "a < b"
  shows "a + 2 powi p \<le> b"
proof -
  have q: "(2::rat) powi q = 2 ^ nat (q - p) * 2 powi p"
    using assms(3) by (simp add: power_int_add [symmetric] power_int_nonneg_exp [symmetric])
  have b: "b = of_int (kb * 2 ^ nat (q - p)) * 2 powi p"
    by (simp add: assms(2) q mult.assoc)
  have "of_int ka * (2::rat) powi p < of_int (kb * 2 ^ nat (q - p)) * 2 powi p"
    using assms(4) unfolding assms(1) b .
  then have "(of_int ka :: rat) < of_int (kb * 2 ^ nat (q - p))"
    using pow2_pos [of p] by (simp add: mult_less_cancel_right)
  then have "ka < kb * 2 ^ nat (q - p)" by (simp only: of_int_less_iff)
  then have "ka + 1 \<le> kb * 2 ^ nat (q - p)" by simp
  then have "(of_int (ka + 1) :: rat) \<le> of_int (kb * 2 ^ nat (q - p))"
    by (simp only: of_int_le_iff)
  then have "of_int (ka + 1) * (2::rat) powi p \<le> of_int (kb * 2 ^ nat (q - p)) * 2 powi p"
    using pow2_pos [of p] by (simp add: mult_right_mono)
  then show ?thesis unfolding assms(1) b by (simp add: algebra_simps)
qed

lemma pow2_shift: "(2::rat) powi (k - 53) = 2 powi k / 2 ^ 53"
  by (simp add: power_int_diff)

lemma ratio_gap:
  assumes rx: "round_binary64 x = x" and ry: "round_binary64 y = y"
    and xpos: "0 < x" and xy: "x < y"
  shows "x / y \<le> 1 - 1 / 2 ^ 53"
proof -
  have ypos: "0 < y" using xpos xy by simp
  define J where "J = ilog2 x"
  define K where "K = ilog2 y"
  from representable_on_grid [OF rx xpos] obtain kx
    where gx: "x = of_int kx * 2 powi ulp_exponent x" by blast
  from representable_on_grid [OF ry ypos] obtain ky
    where gy: "y = of_int ky * 2 powi ulp_exponent y" and kypos: "0 < ky" by blast
  have JK: "J \<le> K" unfolding J_def K_def using xpos xy by (intro ilog2_mono) simp_all
  have bx: "2 powi J \<le> x" "x < 2 powi (J + 1)"
    unfolding J_def using ilog2_bounds [OF xpos] by simp_all
  have "by": "2 powi K \<le> y" "y < 2 powi (K + 1)"
    unfolding K_def using ilog2_bounds [OF ypos] by simp_all
  have ux: "ulp_exponent x = max (J - 52) (- 1074)"
    using xpos by (simp add: ulp_exponent_def J_def)
  have uy: "ulp_exponent y = max (K - 52) (- 1074)"
    using ypos by (simp add: ulp_exponent_def K_def)
  have goal: "x / y \<le> 1 - 1 / 2 ^ 53" if "x + y / 2 ^ 53 \<le> y"
  proof -
    have "x \<le> y * (1 - 1 / 2 ^ 53)" using that by (simp add: algebra_simps)
    then show ?thesis using ypos by (simp add: pos_divide_le_eq mult.commute)
  qed
  consider "J + 2 \<le> K" | "J = K" | "J + 1 = K" using JK by linarith
  then show ?thesis
  proof cases
    case 1
    then have "(2::rat) powi (J + 1) \<le> 2 powi (K - 1)" by (simp add: pow2_le_iff)
    also have "\<dots> = 2 powi K / 2" by (simp add: power_int_diff)
    also have "\<dots> \<le> y / 2" using "by"(1) by simp
    finally have "x < y / 2" using bx(2) by simp
    then have "x + y / 2 ^ 53 \<le> y" using ypos by simp
    then show ?thesis by (rule goal)
  next
    case 2
    then have same: "ulp_exponent x = ulp_exponent y" by (simp add: ux uy)
    from grid_gap [OF gx gy _ xy] same
    have gap: "x + 2 powi ulp_exponent y \<le> y" by simp
    have "y / 2 ^ 53 < 2 powi (K + 1) / 2 ^ 53" using "by"(2) by (simp add: divide_strict_right_mono)
    also have "\<dots> = 2 powi (K - 52)" using pow2_shift [of "K + 1"] by simp
    also have "\<dots> \<le> 2 powi ulp_exponent y" by (simp add: uy pow2_le_iff)
    finally have "x + y / 2 ^ 53 \<le> y" using gap by simp
    then show ?thesis by (rule goal)
  next
    case 3
    have "(1::rat) \<le> of_int ky" using kypos by simp
    then have "1 * (2::rat) powi ulp_exponent y \<le> of_int ky * 2 powi ulp_exponent y"
      using pow2_pos [of "ulp_exponent y"] by (intro mult_right_mono) simp_all
    then have "(2::rat) powi ulp_exponent y \<le> of_int ky * 2 powi ulp_exponent y" by simp
    with gy "by"(2) have "(2::rat) powi ulp_exponent y < 2 powi (K + 1)" by simp
    then have "ulp_exponent y < K + 1" by (simp only: pow2_less_iff)
    then have Kmin: "- 1074 \<le> K" by (simp add: uy)
    have le: "ulp_exponent x \<le> K" using 3 Kmin by (simp add: ux)
    have pk: "(2::rat) powi K = of_int 1 * 2 powi K" by simp
    have "x < 2 powi K" using bx(2) 3 by simp
    from grid_gap [OF gx pk le this]
    have gap: "x + 2 powi ulp_exponent x \<le> 2 powi K" .
    have "(2::rat) powi (K - 53) \<le> 2 powi ulp_exponent x" using 3 by (simp add: ux pow2_le_iff)
    with gap have "x + 2 powi K / 2 ^ 53 \<le> 2 powi K" by (simp add: pow2_shift)
    then have "x \<le> 2 powi K * (1 - 1 / 2 ^ 53)" by (simp add: algebra_simps)
    also have "\<dots> \<le> y * (1 - 1 / 2 ^ 53)" using "by"(1) by (simp add: mult_right_mono)
    finally have "x + y / 2 ^ 53 \<le> y" by (simp add: algebra_simps)
    then show ?thesis by (rule goal)
  qed
qed


lemma near_one:
  "to_float (9007199254740991 / 9007199254740992) = Finite (9007199254740991 / 9007199254740992)"
  by (simp add: binary64_steps)

lemma scale_rat:
  assumes rx: "round_binary64 x = x" and ry: "round_binary64 y = y"
    and x0: "0 \<le> x" and xy: "x \<le> y" and y0: "0 < y"
  shows "\<exists>q r. to_float (x / y) = Finite q \<and> to_float (q * 100) = Finite r
    \<and> 0 \<le> r \<and> r \<le> 100 \<and> (r = 100 \<longleftrightarrow> x = y)"
proof (cases "x = y")
  case True
  then have "to_float (x / y) = Finite 1" using y0 by simp
  moreover have "to_float (1 * 100) = Finite 100" by simp
  ultimately show ?thesis using True by auto
next
  case False
  with xy have lt: "x < y" by simp
  have u: "x / y \<le> 9007199254740991 / 9007199254740992"
  proof (cases "x = 0")
    case True
    then show ?thesis by simp
  next
    case False
    with x0 have "0 < x" by simp
    from ratio_gap [OF rx ry this lt] show ?thesis by simp
  qed
  have "0 \<le> x / y" using x0 y0 by simp
  from to_float_between [OF this u _ near_one, of 0]
  obtain q where q: "to_float (x / y) = Finite q" "0 \<le> q" "q \<le> 9007199254740991 / 9007199254740992"
    by auto
  have "0 \<le> q * 100" "q * 100 \<le> 225179981368524775 / 2251799813685248"
    using q(2,3) by simp_all
  from to_float_between [OF this, of 0 "7036874417766399 / 70368744177664"]
  obtain r where r: "to_float (q * 100) = Finite r" "0 \<le> r" "r \<le> 7036874417766399 / 70368744177664"
    by (auto simp: binary64_steps)
  have "r < 100" using r(3) by simp
  with q(1) r(1,2) False show ?thesis by auto
qed

lemma representable_cases:
  assumes "representable v"
  obtains x where "exact_value v = Finite x" and "round_binary64 x = x"
    and "as_float v = Inr (Finite x)"
proof (cases v)
  case (PyInt n)
  with assms have n: "\<bar>n\<bar> < 2 ^ 53" by simp
  have "exact_value v = Finite (of_int n)" by (simp add: PyInt)
  moreover have "round_binary64 (of_int n) = of_int n" using n by (rule round_binary64_of_int)
  moreover have "as_float v = Inr (Finite (of_int n))"
    using n by (simp add: PyInt float_of_int_def to_float_of_int)
  ultimately show ?thesis by (rule that)
next
  case (PyFloat f)
  with assms obtain q where f: "f = Finite q" and q: "to_float q = Finite q"
    by (cases f) simp_all
  have "exact_value v = Finite q" by (simp add: PyFloat f)
  moreover have "round_binary64 q = q" using q by (simp add: to_float_Finite_iff)
  moreover have "as_float v = Inr (Finite q)" by (simp add: PyFloat f)
  ultimately show ?thesis by (rule that)
qed

lemma py_truediv_exact:
  assumes "exact_value v = Finite x" and "as_float v = Inr (Finite x)"
    and "exact_value m = Finite y" and "as_float m = Inr (Finite y)"
    and "y \<noteq> 0" and "to_float (x / y) = Finite q"
  shows "py_truediv v m = Inr (PyFloat (Finite q))"
proof (cases v)
  case v: (PyInt a)
  show ?thesis
  proof (cases m)
    case (PyInt b)
    with v assms show ?thesis by auto
  next
    case (PyFloat g)
    with v assms show ?thesis by (auto simp: py_binop_def py_bind_def)
  qed
next
  case v: (PyFloat f)
  show ?thesis
  proof (cases m)
    case (PyInt b)
    with v assms show ?thesis by (auto simp: py_binop_def py_bind_def)
  next
    case (PyFloat g)
    with v assms show ?thesis by (auto simp: py_binop_def py_bind_def)
  qed
qed

lemma scale_number:
  assumes "representable v" and "representable m" and "\<not> py_gt (PyInt 0) v"
    and "py_le v m" and "py_gt m (PyInt 0)"
  shows "\<exists>r. documented_normalized v m = Inr (PyFloat (Finite r)) \<and> 0 \<le> r \<and> r \<le> 100
    \<and> (r = 100 \<longleftrightarrow> exact_value v = exact_value m)"
proof -
  from assms(1) obtain x where x: "exact_value v = Finite x" "round_binary64 x = x"
    "as_float v = Inr (Finite x)" by (rule representable_cases)
  from assms(2) obtain y where y: "exact_value m = Finite y" "round_binary64 y = y"
    "as_float m = Inr (Finite y)" by (rule representable_cases)
  have x0: "0 \<le> x" using assms(3) by (simp add: py_gt_def x(1))
  have xy: "x \<le> y" using assms(4) by (auto simp: py_le_def x(1) y(1))
  have y0: "0 < y" using assms(5) by (simp add: py_gt_def y(1))
  from scale_rat [OF x(2) y(2) x0 xy y0] obtain q r where
    q: "to_float (x / y) = Finite q" and r: "to_float (q * 100) = Finite r"
    and b: "0 \<le> r" "r \<le> 100" "r = 100 \<longleftrightarrow> x = y" by blast
  have d: "py_truediv v m = Inr (PyFloat (Finite q))"
    using x(1,3) y(1,3) _ q by (rule py_truediv_exact) (use y0 in simp)
  have "py_mul (PyFloat (Finite q)) (PyInt 100) = Inr (PyFloat (Finite r))"
    by (simp add: py_binop_def py_bind_def float_of_int_def r)
  then have "documented_normalized v m = Inr (PyFloat (Finite r))"
    by (simp add: documented_normalized_def py_binop_def py_bind_def d)
  with b show ?thesis by (simp add: x(1) y(1))
qed

subsection \<open>The maximum\<close>

lemma fgt_total: "a \<noteq> NaN \<Longrightarrow> b \<noteq> NaN \<Longrightarrow> \<not> fgt a b \<Longrightarrow> fgt b a \<or> a = b"
  by (cases a; cases b) auto

lemma fgt_trans: "fgt c b \<Longrightarrow> fgt b a \<Longrightarrow> fgt c a"
  by (cases a; cases b; cases c) auto

lemma py_le_refl: "py_le v v"
  by (simp add: py_le_def)

lemma py_le_trans: "py_le a b \<Longrightarrow> py_le b c \<Longrightarrow> py_le a c"
  by (auto simp: py_le_def dest: fgt_trans)

lemma py_le_total: "not_nan a \<Longrightarrow> not_nan b \<Longrightarrow> \<not> py_gt a b \<Longrightarrow> py_le a b"
  using fgt_total [of "exact_value a" "exact_value b"] by (auto simp: py_le_def py_gt_def not_nan_def)

lemma py_gt_le: "py_gt a b \<Longrightarrow> py_le b a"
  by (simp add: py_le_def py_gt_def)

lemma foldl_max:
  assumes "list_all not_nan (m # xs)"
  shows "foldl (\<lambda>m v. if py_gt v m then v else m) m xs \<in> set (m # xs)
    \<and> py_le m (foldl (\<lambda>m v. if py_gt v m then v else m) m xs)
    \<and> list_all (\<lambda>v. py_le v (foldl (\<lambda>m v. if py_gt v m then v else m) m xs)) xs"
  using assms
proof (induction xs arbitrary: m)
  case Nil
  then show ?case by (simp add: py_le_refl)
next
  case (Cons a xs)
  let ?step = "\<lambda>m v. if py_gt v m then v else m"
  define m' where "m' = ?step m a"
  have nn: "list_all not_nan (m' # xs)" using Cons.prems by (simp add: m'_def)
  note ih = Cons.IH [OF nn]
  have mm': "py_le m m'" by (simp add: m'_def py_le_refl py_gt_le)
  have am': "py_le a m'"
    using Cons.prems by (auto simp: m'_def py_le_refl intro: py_le_total)
  have f: "foldl ?step m (a # xs) = foldl ?step m' xs" by (simp add: m'_def)
  have "foldl ?step m' xs \<in> set (m # a # xs)" using ih by (auto simp: m'_def split: if_splits)
  moreover have "py_le m (foldl ?step m' xs)" using mm' ih by (blast intro: py_le_trans)
  moreover have "py_le a (foldl ?step m' xs)" using am' ih by (blast intro: py_le_trans)
  ultimately show ?case using ih unfolding f by simp
qed

lemma pymax_is_maximum:
  assumes "list_all not_nan col" and "col \<noteq> []"
  shows "\<exists>mx. pymax col = Inr mx \<and> is_maximum mx col"
proof (cases col)
  case Nil
  with assms(2) show ?thesis by simp
next
  case (Cons m xs)
  from foldl_max [of m xs] assms(1) show ?thesis
    by (simp add: Cons is_maximum_def)
qed


lemma py_le_antisym:
  assumes "py_le a b" and "py_le b a"
  shows "exact_value a = exact_value b"
proof -
  have "\<not> (fgt x y \<and> fgt y x)" for x y by (cases x; cases y) auto
  with assms show ?thesis by (auto simp: py_le_def)
qed

lemma is_maximum_iff:
  assumes "is_maximum mx col" and "v \<in> set col"
  shows "is_maximum v col \<longleftrightarrow> exact_value v = exact_value mx"
proof
  assume "is_maximum v col"
  then have 1: "py_le mx v" using assms(1) by (auto simp: is_maximum_def list_all_iff)
  have 2: "py_le v mx" using assms by (auto simp: is_maximum_def list_all_iff)
  from 2 1 show "exact_value v = exact_value mx" by (rule py_le_antisym)
next
  assume "exact_value v = exact_value mx"
  then have "py_le u v = py_le u mx" for u by (simp add: py_le_def)
  with assms show "is_maximum v col" by (simp add: is_maximum_def)
qed

subsection \<open>List comprehensions\<close>

lemma py_map_list_all2:
  "list_all (\<lambda>x. \<exists>y. f x = Inr y \<and> P x y) xs \<Longrightarrow> \<exists>ys. py_map f xs = Inr ys \<and> list_all2 P xs ys"
  by (induction xs) (auto simp: py_bind_def)

lemma py_map_Inr_list_all2:
  "py_map f xs = Inr ys \<Longrightarrow> list_all2 (\<lambda>x y. f x = Inr y) xs ys"
  by (induction xs arbitrary: ys) (auto simp: py_bind_def split: sum.splits)

lemma py_map_zip:
  "py_map f ms = Inr vs \<Longrightarrow> py_map h ms = Inr xs \<Longrightarrow>
   py_map g (zip vs xs) = py_map (\<lambda>m. py_bind (f m) (\<lambda>v. py_bind (h m) (\<lambda>x. g (v, x)))) ms"
  by (induction ms arbitrary: vs xs) (auto simp: py_bind_def split: sum.splits)

text \<open>One radar value: the book's value over the maximum of the metric's column.\<close>

lemma column_three:
  assumes "column_of bs m = Inr col"
  obtains vc vt vb where "col = [vc, vt, vb]"
    and "metric_of bs ''Coran'' ''structural_analysis'' m = Inr vc"
    and "metric_of bs ''Torah'' ''structural_analysis'' m = Inr vt"
    and "metric_of bs ''Bible'' ''structural_analysis'' m = Inr vb"
  using assms
  by (auto simp: column_of_def book_names_def py_bind_def split: sum.splits)

lemma column_member:
  assumes "column_of bs m = Inr col" and "book \<in> set book_names"
  shows "\<exists>v. metric_of bs book ''structural_analysis'' m = Inr v \<and> v \<in> set col"
proof -
  from column_three [OF assms(1)] obtain vc vt vb where "col = [vc, vt, vb]"
    and "metric_of bs ''Coran'' ''structural_analysis'' m = Inr vc"
    and "metric_of bs ''Torah'' ''structural_analysis'' m = Inr vt"
    and "metric_of bs ''Bible'' ''structural_analysis'' m = Inr vb" by blast
  with assms(2) show ?thesis by (auto simp: book_names_def)
qed

lemma comparable_column_max:
  assumes "comparable_column bs m"
  shows "\<exists>col mx. column_of bs m = Inr col \<and> py_bind (column_of bs m) pymax = Inr mx
    \<and> is_maximum mx col"
proof -
  from assms obtain col where col: "column_of bs m = Inr col" and nn: "list_all not_nan col"
    by (auto simp: comparable_column_def split: sum.splits)
  from column_three [OF col] have "col \<noteq> []" by auto
  from pymax_is_maximum [OF nn this] col show ?thesis by (auto simp: py_bind_def)
qed

lemma scalable_imp_comparable: "scalable_column bs m \<Longrightarrow> comparable_column bs m"
proof -
  have "representable v \<Longrightarrow> not_nan v" for v
    by (cases v rule: representable.cases) (simp_all add: not_nan_def)
  then show "scalable_column bs m \<Longrightarrow> comparable_column bs m"
    by (auto simp: scalable_column_def comparable_column_def list_all_iff split: sum.splits)
qed

lemma normalized_cells:
  assumes "list_all (comparable_column bs) structural_metrics" and "book \<in> set book_names"
  shows "\<exists>values maxima.
      list_all2 (\<lambda>m v. metric_of bs book ''structural_analysis'' m = Inr v)
        structural_metrics values
    \<and> list_all2 (\<lambda>m mx. \<exists>col. column_of bs m = Inr col \<and> is_maximum mx col)
        structural_metrics maxima
    \<and> max_vals bs = Inr maxima
    \<and> normalized bs book = py_map (\<lambda>(v, mx). documented_normalized v mx) (zip values maxima)
    \<and> normalized bs book
        = py_map (\<lambda>m. py_bind (metric_of bs book ''structural_analysis'' m) (\<lambda>v.
                      py_bind (py_bind (column_of bs m) pymax) (\<lambda>mx. documented_normalized v mx)))
            structural_metrics"
proof -
  have "list_all (\<lambda>m. \<exists>v. metric_of bs book ''structural_analysis'' m = Inr v \<and> True)
      structural_metrics"
    using assms comparable_column_max column_member
    by (fastforce simp: list_all_iff)
  from py_map_list_all2 [OF this] obtain vals
    where v: "py_map (metric_of bs book ''structural_analysis'') structural_metrics = Inr vals"
    by blast
  have "list_all (\<lambda>m. \<exists>mx. py_bind (column_of bs m) pymax = Inr mx
        \<and> (\<exists>col. column_of bs m = Inr col \<and> is_maximum mx col)) structural_metrics"
    using assms(1) comparable_column_max by (fastforce simp: list_all_iff)
  from py_map_list_all2 [OF this] obtain maxima
    where m: "py_map (\<lambda>m. py_bind (column_of bs m) pymax) structural_metrics = Inr maxima"
    and mm: "list_all2 (\<lambda>m mx. \<exists>col. column_of bs m = Inr col \<and> is_maximum mx col)
        structural_metrics maxima"
    by blast
  have g: "(\<lambda>(v, max_v). mul_e (div_e (Inr v) (Inr max_v)) (num 100))
      = (\<lambda>(v, mx). documented_normalized v mx)"
    by (simp add: documented_normalized_def)
  have mv: "max_vals bs = Inr maxima" by (simp add: max_vals_def m)
  have n: "normalized bs book = py_map (\<lambda>(v, mx). documented_normalized v mx) (zip vals maxima)"
    by (simp add: normalized_def mv v py_bind_def g)
  have "py_map (\<lambda>(v, mx). documented_normalized v mx) (zip vals maxima)
      = py_map (\<lambda>m. py_bind (metric_of bs book ''structural_analysis'' m) (\<lambda>v.
                      py_bind (py_bind (column_of bs m) pymax) (\<lambda>mx. documented_normalized v mx)))
            structural_metrics"
    using py_map_zip [OF v m, of "\<lambda>(v, mx). documented_normalized v mx"] by simp
  with n mv mm py_map_Inr_list_all2 [OF v] show ?thesis
    by auto
qed

lemma scalable_cell:
  assumes "scalable_column bs m" and "book \<in> set book_names"
  shows "\<exists>v col mx r.
      metric_of bs book ''structural_analysis'' m = Inr v
    \<and> column_of bs m = Inr col \<and> pymax col = Inr mx \<and> is_maximum mx col \<and> v \<in> set col
    \<and> documented_normalized v mx = Inr (PyFloat (Finite r)) \<and> 0 \<le> r \<and> r \<le> 100
    \<and> (r = 100 \<longleftrightarrow> is_maximum v col)"
proof -
  from assms(1) obtain col where col: "column_of bs m = Inr col"
    and ok: "list_all (\<lambda>v. representable v \<and> \<not> py_gt (PyInt 0) v) col"
    and ex: "list_ex (\<lambda>v. py_gt v (PyInt 0)) col"
    by (auto simp: scalable_column_def split: sum.splits)
  from comparable_column_max [OF scalable_imp_comparable [OF assms(1)]] col
  obtain mx where mx: "pymax col = Inr mx" "is_maximum mx col" by (auto simp: py_bind_def)
  from column_member [OF col assms(2)] obtain v
    where v: "metric_of bs book ''structural_analysis'' m = Inr v" "v \<in> set col" by blast
  have mxin: "mx \<in> set col" using mx(2) by (simp add: is_maximum_def)
  have rv: "representable v" "\<not> py_gt (PyInt 0) v" using ok v(2) by (auto simp: list_all_iff)
  have rm: "representable mx" using ok mxin by (auto simp: list_all_iff)
  have le: "py_le v mx" using mx(2) v(2) by (auto simp: is_maximum_def list_all_iff)
  from ex obtain u where u: "u \<in> set col" "py_gt u (PyInt 0)" by (auto simp: list_ex_iff)
  have "py_le u mx" using mx(2) u(1) by (auto simp: is_maximum_def list_all_iff)
  with u(2) have pos: "py_gt mx (PyInt 0)"
    by (auto simp: py_le_def py_gt_def dest: fgt_trans)
  from scale_number [OF rv(1) rm rv(2) le pos] obtain r where
    "documented_normalized v mx = Inr (PyFloat (Finite r))" "0 \<le> r" "r \<le> 100"
    "r = 100 \<longleftrightarrow> exact_value v = exact_value mx" by blast
  with is_maximum_iff [OF mx(2) v(2)] col mx v show ?thesis by blast
qed

lemma list_all2_snd: "list_all2 (\<lambda>x y. Q y) xs ys \<Longrightarrow> list_all Q ys"
  by (induction rule: list_all2_induct) simp_all

lemma scalable_cells:
  assumes "list_all (scalable_column bs) structural_metrics" and "book \<in> set book_names"
  shows "\<exists>rs. normalized bs book = Inr rs
    \<and> list_all2 (\<lambda>m r. \<exists>v col x. metric_of bs book ''structural_analysis'' m = Inr v
          \<and> column_of bs m = Inr col \<and> v \<in> set col \<and> r = PyFloat (Finite x)
          \<and> 0 \<le> x \<and> x \<le> 100 \<and> (x = 100 \<longleftrightarrow> is_maximum v col))
        structural_metrics rs"
proof -
  have c: "list_all (comparable_column bs) structural_metrics"
    using assms(1) by (auto simp: list_all_iff intro: scalable_imp_comparable)
  from normalized_cells [OF c assms(2)]
  have n: "normalized bs book
        = py_map (\<lambda>m. py_bind (metric_of bs book ''structural_analysis'' m) (\<lambda>v.
                      py_bind (py_bind (column_of bs m) pymax) (\<lambda>mx. documented_normalized v mx)))
            structural_metrics"
    by blast
  have "list_all (\<lambda>m. \<exists>r.
        py_bind (metric_of bs book ''structural_analysis'' m) (\<lambda>v.
          py_bind (py_bind (column_of bs m) pymax) (\<lambda>mx. documented_normalized v mx)) = Inr r
        \<and> (\<exists>v col x. metric_of bs book ''structural_analysis'' m = Inr v
          \<and> column_of bs m = Inr col \<and> v \<in> set col \<and> r = PyFloat (Finite x)
          \<and> 0 \<le> x \<and> x \<le> 100 \<and> (x = 100 \<longleftrightarrow> is_maximum v col)))
      structural_metrics"
    unfolding list_all_iff
  proof
    fix m assume "m \<in> set structural_metrics"
    with assms(1) have "scalable_column bs m" by (simp add: list_all_iff)
    from scalable_cell [OF this assms(2)] obtain v col mx x where
      "metric_of bs book ''structural_analysis'' m = Inr v" "column_of bs m = Inr col"
      "pymax col = Inr mx" "v \<in> set col"
      "documented_normalized v mx = Inr (PyFloat (Finite x))" "0 \<le> x" "x \<le> 100"
      "x = 100 \<longleftrightarrow> is_maximum v col" by blast
    then show "\<exists>r.
        py_bind (metric_of bs book ''structural_analysis'' m) (\<lambda>v.
          py_bind (py_bind (column_of bs m) pymax) (\<lambda>mx. documented_normalized v mx)) = Inr r
        \<and> (\<exists>v col x. metric_of bs book ''structural_analysis'' m = Inr v
          \<and> column_of bs m = Inr col \<and> v \<in> set col \<and> r = PyFloat (Finite x)
          \<and> 0 \<le> x \<and> x \<le> 100 \<and> (x = 100 \<longleftrightarrow> is_maximum v col))"
      by (simp add: py_bind_def)
  qed
  from py_map_list_all2 [OF this] n show ?thesis by simp
qed

lemma book_hundred:
  assumes "list_all (scalable_column bs) structural_metrics" and "i < length structural_metrics"
    and "book \<in> set book_names"
    and "column_of bs (structural_metrics ! i) = Inr col"
    and "metric_of bs book ''structural_analysis'' (structural_metrics ! i) = Inr v"
  shows "(case normalized bs book of
            Inl _ \<Rightarrow> False
          | Inr rs \<Rightarrow> i < length rs \<and> rs ! i = PyFloat (Finite 100))
     \<longleftrightarrow> is_maximum v col"
proof -
  from scalable_cells [OF assms(1,3)] obtain rs where rs: "normalized bs book = Inr rs"
    and c: "list_all2 (\<lambda>m r. \<exists>v col x. metric_of bs book ''structural_analysis'' m = Inr v
          \<and> column_of bs m = Inr col \<and> v \<in> set col \<and> r = PyFloat (Finite x)
          \<and> 0 \<le> x \<and> x \<le> 100 \<and> (x = 100 \<longleftrightarrow> is_maximum v col))
        structural_metrics rs" by blast
  have len: "length rs = length structural_metrics" using c by (simp add: list_all2_lengthD)
  from list_all2_nthD [OF c assms(2)] assms(4,5)
  obtain x where "rs ! i = PyFloat (Finite x)" "x = 100 \<longleftrightarrow> is_maximum v col" by auto
  then show ?thesis using assms(2) by (simp add: rs len)
qed

lemma static_scalable: "list_all (scalable_column load_advanced_data) structural_metrics"
  by (simp add: scalable_column_def radar_defs eval_defs binary64_steps)

lemma static_hundreds:
  "hundreds load_advanced_data 0 = 1" "hundreds load_advanced_data 1 = 1"
  "hundreds load_advanced_data 2 = 1" "hundreds load_advanced_data 3 = 1"
  "hundreds load_advanced_data 4 = 1"
  by (simp_all add: hundreds_def book_names_def normalized_coran normalized_torah
      normalized_bible fl_def float_lit_def binary64_steps)

lemma static_comparable: "list_all (comparable_column load_advanced_data) structural_metrics"
  using static_scalable by (auto simp: list_all_iff intro: scalable_imp_comparable)

lemma tied_books_eval:
  "normalized tied_books ''Coran'' =
     Inr [fl 100, fl (9239130434782608 / 10 ^ 14), fl (7784810126582279 / 10 ^ 14), fl 100, fl 100]"
  "normalized tied_books ''Torah'' =
     Inr [fl (71484375 / 10 ^ 6), fl (8478260869565217 / 10 ^ 14),
          fl (550632911392405 / 10 ^ 13), fl (4787234042553192 / 10 ^ 14), fl 100]"
  "normalized tied_books ''Bible'' =
     Inr [fl (86328125 / 10 ^ 6), fl 100, fl 100, fl (7127659574468085 / 10 ^ 14),
          fl (923913043478261 / 10 ^ 13)]"
  by (simp_all add: tied_books_def set_field_def radar_defs eval_defs binary64_steps)

text \<open>The radar values of a book are computed for the five metrics together: when the values
  of one metric are all zero, the division raises for the whole list, also where another
  metric could be scaled.\<close>

lemma zero_column_raises:
  "scalable_column zero_rhythm_books ''thematic_cohesion''"
  "normalized zero_rhythm_books ''Coran'' = Inl ZeroDivisionError"
  "normalized zero_rhythm_books ''Torah'' = Inl ZeroDivisionError"
  "normalized zero_rhythm_books ''Bible'' = Inl ZeroDivisionError"
  "hundreds zero_rhythm_books 4 = 0"
proof -
  show "scalable_column zero_rhythm_books ''thematic_cohesion''"
    by (simp add: scalable_column_def zero_rhythm_books_def set_field_def radar_defs eval_defs
        binary64_steps)
  show n: "normalized zero_rhythm_books ''Coran'' = Inl ZeroDivisionError"
    "normalized zero_rhythm_books ''Torah'' = Inl ZeroDivisionError"
    "normalized zero_rhythm_books ''Bible'' = Inl ZeroDivisionError"
    by (simp_all add: zero_rhythm_books_def set_field_def radar_defs eval_defs binary64_steps)
  show "hundreds zero_rhythm_books 4 = 0"
    by (simp add: hundreds_def book_names_def n)
qed

section \<open>Claims\<close>

text \<open>
  C3. For each of the three books of the static dataset, the composite score that the overview
  page computes is the float nearest to the value of the documented formula on that book's
  data, and so equals it within the tolerance of binary64: 9.4625 for Coran
  (\<open>9.2 * 0.2 + 9.1 * 0.25 + 9.5 * 0.3 + 9.99 * 0.25\<close>), 9.18 for Torah and 9.105 for Bible.
\<close>

theorem composite_score_static_dataset:
  "fst (create_advanced_metrics_dashboard init ''Coran'') = Inr (Some (fl (94625 / 10000)))
   \<and> exact_composite (92 / 10) (91 / 10) (95 / 10) (999 / 10) = 94625 / 10000
   \<and> within_tolerance (fl (94625 / 10000)) (94625 / 10000)
   \<and> fst (create_advanced_metrics_dashboard init ''Torah'') = Inr (Some (fl (918 / 100)))
   \<and> exact_composite (88 / 10) (84 / 10) (98 / 10) (952 / 10) = 918 / 100
   \<and> within_tolerance (fl (918 / 100)) (918 / 100)
   \<and> fst (create_advanced_metrics_dashboard init ''Bible'') = Inr (Some (fl (9105 / 1000)))
   \<and> exact_composite (85 / 10) (88 / 10) (92 / 10) (978 / 10) = 9105 / 1000
   \<and> within_tolerance (fl (9105 / 1000)) (9105 / 1000)"
proof -
  have "within_tolerance (fl (94625 / 10000)) (94625 / 10000)"
    and "within_tolerance (fl (918 / 100)) (918 / 100)"
    and "within_tolerance (fl (9105 / 1000)) (9105 / 1000)"
    by (simp_all add: fl_def float_lit_def binary64_steps)
  moreover have "exact_composite (92 / 10) (91 / 10) (95 / 10) (999 / 10) = 94625 / 10000"
    and "exact_composite (88 / 10) (84 / 10) (98 / 10) (952 / 10) = 918 / 100"
    and "exact_composite (85 / 10) (88 / 10) (92 / 10) (978 / 10) = 9105 / 1000"
    by (simp_all add: exact_composite_def)
  ultimately show ?thesis
    using composite_coran composite_torah composite_bible by simp
qed

text \<open>
  C10. For each of the three books of the static dataset, whose vocabulary richness lies in
  0..1, thematic cohesion in 0..10 and repetition rate in 0..100, the structural complexity
  index exceeds 10: it is 20.33 for Coran, 20.8065 for Torah and 19.4085 for Bible, each the
  float nearest to the exact value of the documented formula.
\<close>

theorem complexity_index_static_dataset:
  "book_complexity_score load_advanced_data ''Coran'' = Inr (fl (2033 / 100))
   \<and> book_complexity_score load_advanced_data ''Torah'' = Inr (fl (208065 / 10000))
   \<and> book_complexity_score load_advanced_data ''Bible'' = Inr (fl (194085 / 10000))
   \<and> py_gt (fl (2033 / 100)) (PyInt 10)
   \<and> py_gt (fl (208065 / 10000)) (PyInt 10)
   \<and> py_gt (fl (194085 / 10000)) (PyInt 10)
   \<and> exact_complexity (85 / 100) (92 / 10) (123 / 10) 94 = 2033 / 100
   \<and> exact_complexity (78 / 100) (88 / 10) (87 / 10) 45 = 208065 / 10000
   \<and> exact_complexity (92 / 100) (85 / 10) (158 / 10) 67 = 194085 / 10000
   \<and> list_all (\<lambda>book.
         field_in_range load_advanced_data book ''structural_analysis'' ''vocabulary_richness'' 0 1
         \<and> field_in_range load_advanced_data book ''structural_analysis'' ''thematic_cohesion'' 0 10
         \<and> field_in_range load_advanced_data book ''structural_analysis'' ''repetition_rate'' 0 100)
       book_names"
proof -
  have "py_gt (fl (2033 / 100)) (PyInt 10)" and "py_gt (fl (208065 / 10000)) (PyInt 10)"
    and "py_gt (fl (194085 / 10000)) (PyInt 10)"
    by (simp_all add: py_gt_def fl_def float_lit_def binary64_steps)
  moreover have "exact_complexity (85 / 100) (92 / 10) (123 / 10) 94 = 2033 / 100"
    and "exact_complexity (78 / 100) (88 / 10) (87 / 10) 45 = 208065 / 10000"
    and "exact_complexity (92 / 100) (85 / 10) (158 / 10) 67 = 194085 / 10000"
    by (simp_all add: exact_complexity_def)
  moreover have "list_all (\<lambda>book.
         field_in_range load_advanced_data book ''structural_analysis'' ''vocabulary_richness'' 0 1
         \<and> field_in_range load_advanced_data book ''structural_analysis'' ''thematic_cohesion'' 0 10
         \<and> field_in_range load_advanced_data book ''structural_analysis'' ''repetition_rate'' 0 100)
       book_names"
    by (simp add: field_in_range_def radar_defs eval_defs binary64_steps)
  ultimately show ?thesis
    using complexity_coran complexity_torah complexity_bible by simp
qed

text \<open>
  C1. For every book record (a dictionary that supplies the fifteen documented fields), the
  composite score of the record is \<open>thematic_cohesion * 0.20 + semantic_density * 0.25 +
  legal_influence * 0.30 + (oral_preservation / 10) * 0.25\<close> over the record's fields. The
  overview page formats the fifteen fields, then shows this score, and leaves the dashboard
  object as it was; it raises instead when formatting a field raises.
\<close>

theorem composite_score_formula:
  assumes "selected_book \<noteq> []" and "book_record_at (books_data self) selected_book"
  shows "\<exists>bd tc sd li op.
      getitem (books_data self) selected_book = Inr bd
    \<and> metric_of (books_data self) selected_book ''structural_analysis'' ''thematic_cohesion'' = Inr tc
    \<and> metric_of (books_data self) selected_book ''linguistic_features'' ''semantic_density'' = Inr sd
    \<and> metric_of (books_data self) selected_book ''historical_impact'' ''legal_influence'' = Inr li
    \<and> metric_of (books_data self) selected_book ''linguistic_features'' ''oral_preservation'' = Inr op
    \<and> record_composite_score bd = documented_composite tc sd li op
    \<and> create_advanced_metrics_dashboard self selected_book
        = (py_bind (show_book bd) (\<lambda>_. py_bind (documented_composite tc sd li op)
            (\<lambda>score. Inr (Some score))), self)"
  using assms by (rule overview_page_formula)

theorem composite_score_formula_witness:
  "''Coran'' \<noteq> [] \<and> book_record_at (books_data init) ''Coran''
   \<and> (\<exists>bd tc sd li op.
      getitem (books_data init) ''Coran'' = Inr bd
    \<and> metric_of (books_data init) ''Coran'' ''structural_analysis'' ''thematic_cohesion'' = Inr tc
    \<and> metric_of (books_data init) ''Coran'' ''linguistic_features'' ''semantic_density'' = Inr sd
    \<and> metric_of (books_data init) ''Coran'' ''historical_impact'' ''legal_influence'' = Inr li
    \<and> metric_of (books_data init) ''Coran'' ''linguistic_features'' ''oral_preservation'' = Inr op
    \<and> record_composite_score bd = documented_composite tc sd li op
    \<and> show_book bd = Inr ()
    \<and> create_advanced_metrics_dashboard init ''Coran''
        = (py_bind (show_book bd) (\<lambda>_. py_bind (documented_composite tc sd li op)
            (\<lambda>score. Inr (Some score))), init))"
proof -
  have 1: "''Coran'' \<noteq> []" by simp
  have 2: "book_record_at (books_data init) ''Coran''" by (simp add: init_def static_records)
  from composite_score_formula [OF 1 2] obtain bd tc sd li op where
    r: "getitem (books_data init) ''Coran'' = Inr bd"
      "metric_of (books_data init) ''Coran'' ''structural_analysis'' ''thematic_cohesion'' = Inr tc"
      "metric_of (books_data init) ''Coran'' ''linguistic_features'' ''semantic_density'' = Inr sd"
      "metric_of (books_data init) ''Coran'' ''historical_impact'' ''legal_influence'' = Inr li"
      "metric_of (books_data init) ''Coran'' ''linguistic_features'' ''oral_preservation'' = Inr op"
      "record_composite_score bd = documented_composite tc sd li op"
      "create_advanced_metrics_dashboard init ''Coran''
        = (py_bind (show_book bd) (\<lambda>_. py_bind (documented_composite tc sd li op)
            (\<lambda>score. Inr (Some score))), init)"
    by blast
  from r(1) have "show_book bd = Inr ()" by (simp add: init_def static_show_book)
  with r 1 2 show ?thesis by blast
qed

text \<open>
  C2. For every book record, the structural complexity index computed for it is
  \<open>(vocabulary_richness * 30 + thematic_cohesion * 25 + (100 - repetition_rate) * 20 +
  rhythmic_patterns * 0.25) / 100\<close> over the record's structural metrics.
\<close>

theorem complexity_index_formula:
  assumes "book_record_at bs book"
  shows "\<exists>vr tc rr rp.
      metric_of bs book ''structural_analysis'' ''vocabulary_richness'' = Inr vr
    \<and> metric_of bs book ''structural_analysis'' ''thematic_cohesion'' = Inr tc
    \<and> metric_of bs book ''structural_analysis'' ''repetition_rate'' = Inr rr
    \<and> metric_of bs book ''structural_analysis'' ''rhythmic_patterns'' = Inr rp
    \<and> book_complexity_score bs book = documented_complexity vr tc rr rp"
proof -
  from assms obtain bd where bd: "getitem bs book = Inr bd" and rec: "is_book_record bd"
    by (auto simp: book_record_at_def getitem_def split: option.splits)
  from rec obtain data where d: "getitem bd ''structural_analysis'' = Inr data"
    and sf: "list_all (\<lambda>f. map_of data f \<noteq> None) structural_fields"
    unfolding is_book_record_def by (blast elim: has_fields_section)
  from present_getitem [OF sf, of "''vocabulary_richness''"]
  obtain vr where vr: "getitem data ''vocabulary_richness'' = Inr vr"
    by (auto simp: structural_fields_def)
  from present_getitem [OF sf, of "''thematic_cohesion''"]
  obtain tc where tc: "getitem data ''thematic_cohesion'' = Inr tc"
    by (auto simp: structural_fields_def)
  from present_getitem [OF sf, of "''repetition_rate''"]
  obtain rr where rr: "getitem data ''repetition_rate'' = Inr rr"
    by (auto simp: structural_fields_def)
  from present_getitem [OF sf, of "''rhythmic_patterns''"]
  obtain rp where rp: "getitem data ''rhythmic_patterns'' = Inr rp"
    by (auto simp: structural_fields_def)
  have "complexity_score data = documented_complexity vr tc rr rp"
    by (simp add: complexity_score_def documented_complexity_def vr tc rr rp)
  then have "book_complexity_score bs book = documented_complexity vr tc rr rp"
    by (simp add: book_complexity_score_def bd d py_bind_def)
  moreover have "metric_of bs book ''structural_analysis'' ''vocabulary_richness'' = Inr vr"
    "metric_of bs book ''structural_analysis'' ''thematic_cohesion'' = Inr tc"
    "metric_of bs book ''structural_analysis'' ''repetition_rate'' = Inr rr"
    "metric_of bs book ''structural_analysis'' ''rhythmic_patterns'' = Inr rp"
    by (simp_all add: metric_of_def bd d vr tc rr rp py_bind_def)
  ultimately show ?thesis by blast
qed

theorem complexity_index_formula_witness:
  "book_record_at load_advanced_data ''Torah''
   \<and> (\<exists>vr tc rr rp.
      metric_of load_advanced_data ''Torah'' ''structural_analysis'' ''vocabulary_richness'' = Inr vr
    \<and> metric_of load_advanced_data ''Torah'' ''structural_analysis'' ''thematic_cohesion'' = Inr tc
    \<and> metric_of load_advanced_data ''Torah'' ''structural_analysis'' ''repetition_rate'' = Inr rr
    \<and> metric_of load_advanced_data ''Torah'' ''structural_analysis'' ''rhythmic_patterns'' = Inr rp
    \<and> book_complexity_score load_advanced_data ''Torah'' = documented_complexity vr tc rr rp)"
  using complexity_index_formula [OF static_records(2)] static_records(2) by blast

text \<open>
  C4. For every book record whose thematic cohesion, semantic density and legal influence
  lie in 0..10 and whose oral preservation lies in 0..100, the composite score of the record
  is a finite float between 0 and 10. The overview page formats the fifteen fields and then
  returns this score; it raises instead when formatting a field raises.
\<close>

theorem composite_score_range:
  assumes "selected_book \<noteq> []" and "book_record_at (books_data self) selected_book"
    and "field_in_range (books_data self) selected_book
           ''structural_analysis'' ''thematic_cohesion'' 0 10"
    and "field_in_range (books_data self) selected_book
           ''linguistic_features'' ''semantic_density'' 0 10"
    and "field_in_range (books_data self) selected_book
           ''historical_impact'' ''legal_influence'' 0 10"
    and "field_in_range (books_data self) selected_book
           ''linguistic_features'' ''oral_preservation'' 0 100"
  shows "\<exists>bd r. getitem (books_data self) selected_book = Inr bd
    \<and> record_composite_score bd = Inr (PyFloat (Finite r)) \<and> 0 \<le> r \<and> r \<le> 10
    \<and> create_advanced_metrics_dashboard self selected_book
        = (py_bind (show_book bd) (\<lambda>_. Inr (Some (PyFloat (Finite r)))), self)"
proof -
  from overview_page_formula [OF assms(1,2)] obtain bd tc sd li op where
    bd: "getitem (books_data self) selected_book = Inr bd" and
    f: "metric_of (books_data self) selected_book ''structural_analysis'' ''thematic_cohesion'' = Inr tc"
       "metric_of (books_data self) selected_book ''linguistic_features'' ''semantic_density'' = Inr sd"
       "metric_of (books_data self) selected_book ''historical_impact'' ''legal_influence'' = Inr li"
       "metric_of (books_data self) selected_book ''linguistic_features'' ''oral_preservation'' = Inr op"
    and c: "record_composite_score bd = documented_composite tc sd li op"
    and r: "create_advanced_metrics_dashboard self selected_book
        = (py_bind (show_book bd) (\<lambda>_. py_bind (documented_composite tc sd li op)
            (\<lambda>score. Inr (Some score))), self)"
    by blast
  have "in_range 0 10 tc" "in_range 0 10 sd" "in_range 0 10 li" "in_range 0 100 op"
    using assms(3-6) by (simp_all add: field_in_range_def f)
  from documented_composite_range [OF this] obtain x where
    x: "documented_composite tc sd li op = Inr (PyFloat (Finite x))" "0 \<le> x" "x \<le> 10" by blast
  have "create_advanced_metrics_dashboard self selected_book
        = (py_bind (show_book bd) (\<lambda>_. Inr (Some (PyFloat (Finite x)))), self)"
    by (simp add: r x(1) py_bind_def)
  with bd c x show ?thesis by auto
qed

theorem composite_score_range_witness:
  "''Bible'' \<noteq> [] \<and> book_record_at (books_data init) ''Bible''
   \<and> field_in_range (books_data init) ''Bible'' ''structural_analysis'' ''thematic_cohesion'' 0 10
   \<and> field_in_range (books_data init) ''Bible'' ''linguistic_features'' ''semantic_density'' 0 10
   \<and> field_in_range (books_data init) ''Bible'' ''historical_impact'' ''legal_influence'' 0 10
   \<and> field_in_range (books_data init) ''Bible'' ''linguistic_features'' ''oral_preservation'' 0 100
   \<and> (\<exists>bd r. getitem (books_data init) ''Bible'' = Inr bd
      \<and> record_composite_score bd = Inr (PyFloat (Finite r)) \<and> 0 \<le> r \<and> r \<le> 10
      \<and> show_book bd = Inr ()
      \<and> create_advanced_metrics_dashboard init ''Bible''
          = (py_bind (show_book bd) (\<lambda>_. Inr (Some (PyFloat (Finite r)))), init))"
proof -
  have 1: "''Bible'' \<noteq> []" by simp
  have 2: "book_record_at (books_data init) ''Bible''" by (simp add: init_def static_records)
  have 3: "field_in_range (books_data init) ''Bible'' ''structural_analysis'' ''thematic_cohesion'' 0 10"
    and 4: "field_in_range (books_data init) ''Bible'' ''linguistic_features'' ''semantic_density'' 0 10"
    and 5: "field_in_range (books_data init) ''Bible'' ''historical_impact'' ''legal_influence'' 0 10"
    and 6: "field_in_range (books_data init) ''Bible'' ''linguistic_features'' ''oral_preservation'' 0 100"
    by (simp_all add: field_in_range_def radar_defs eval_defs binary64_steps)
  from composite_score_range [OF 1 2 3 4 5 6] obtain bd r where
    r: "getitem (books_data init) ''Bible'' = Inr bd"
      "record_composite_score bd = Inr (PyFloat (Finite r))" "0 \<le> r" "r \<le> 10"
      "create_advanced_metrics_dashboard init ''Bible''
          = (py_bind (show_book bd) (\<lambda>_. Inr (Some (PyFloat (Finite r)))), init)"
    by blast
  from r(1) have "show_book bd = Inr ()" by (simp add: init_def static_show_book)
  with r 1 2 3 4 5 6 show ?thesis by blast
qed

text \<open>
  C7. The structural complexity index is a function of the structural metrics alone, and
  computing it changes nothing: displaying the structure page a second time, or after any
  run of the dashboard, yields the same indices.
\<close>

theorem complexity_index_deterministic:
  "fst (create_structural_analysis (snd (create_structural_analysis self)))
     = fst (create_structural_analysis self)
   \<and> fst (create_structural_analysis (snd (run_advanced_dashboard self t selected_book)))
     = fst (create_structural_analysis self)
   \<and> book_complexity_score (books_data (snd (create_structural_analysis self))) book
     = book_complexity_score (books_data self) book"
  by (auto simp: create_structural_analysis_def run_advanced_dashboard_def show_page_def
      create_advanced_header_def create_linguistic_analysis_def
      create_advanced_metrics_dashboard_def split: sum.splits prod.splits analysis_type.splits)

text \<open>
  C8. When a field of book A's record is assigned a new value, the composite score and the
  complexity index of every other book B stay the same.
\<close>

theorem scores_of_other_book_unchanged:
  assumes "a \<noteq> b" and "set_field (books_data self) a section field v = Inr bs'"
  shows "fst (create_advanced_metrics_dashboard (self\<lparr>books_data := bs'\<rparr>) b)
          = fst (create_advanced_metrics_dashboard self b)
    \<and> book_complexity_score bs' b = book_complexity_score (books_data self) b"
  using set_field_other_book [OF assms]
  by (simp add: create_advanced_metrics_dashboard_def book_complexity_score_def)

theorem scores_of_other_book_unchanged_witness:
  "''Coran'' \<noteq> ''Torah''
   \<and> (\<exists>bs'. set_field (books_data init) ''Coran'' ''structural_analysis'' ''thematic_cohesion''
               (PyInt 0) = Inr bs'
        \<and> bs' \<noteq> books_data init
        \<and> fst (create_advanced_metrics_dashboard (init\<lparr>books_data := bs'\<rparr>) ''Torah'')
            = fst (create_advanced_metrics_dashboard init ''Torah'')
        \<and> book_complexity_score bs' ''Torah'' = book_complexity_score (books_data init) ''Torah'')"
proof -
  have 1: "''Coran'' \<noteq> ''Torah''" by simp
  obtain bs' where 2: "set_field (books_data init) ''Coran'' ''structural_analysis''
      ''thematic_cohesion'' (PyInt 0) = Inr bs'" and 3: "bs' \<noteq> books_data init"
    by (simp add: set_field_def init_def load_advanced_data_def getitem_def py_bind_def fl_def)
  from scores_of_other_book_unchanged [OF 1 2] 1 2 3 show ?thesis by blast
qed

text \<open>
  C9. Each of the three records of the static dataset supplies the five structural, five
  linguistic and five historical fields; the dashboard object is created with this dataset;
  and every method returns the object as it received it, so the records are never changed.
\<close>

theorem static_dataset_complete_and_never_changed:
  "book_record_at load_advanced_data ''Coran''
   \<and> book_record_at load_advanced_data ''Torah''
   \<and> book_record_at load_advanced_data ''Bible''
   \<and> map fst load_advanced_data = book_names
   \<and> length structural_fields = 5 \<and> length linguistic_fields = 5 \<and> length historical_fields = 5
   \<and> books_data init = load_advanced_data
   \<and> snd (create_advanced_header self) = self
   \<and> snd (create_structural_analysis self) = self
   \<and> snd (create_linguistic_analysis self) = self
   \<and> snd (create_advanced_metrics_dashboard self selected_book) = self
   \<and> snd (run_advanced_dashboard self t selected_book) = self"
proof -
  have "snd (run_advanced_dashboard self t selected_book) = self"
    by (auto simp: run_advanced_dashboard_def show_page_def create_advanced_header_def
        create_structural_analysis_def create_linguistic_analysis_def
        create_advanced_metrics_dashboard_def split: sum.splits prod.splits analysis_type.splits)
  moreover have "map fst load_advanced_data = book_names"
    by (simp add: load_advanced_data_def book_names_def)
  ultimately show ?thesis
    by (simp add: static_records init_def create_advanced_header_def
        create_structural_analysis_def create_linguistic_analysis_def
        create_advanced_metrics_dashboard_def structural_fields_def linguistic_fields_def
        historical_fields_def)
qed

text \<open>
  C5. For every structural metric and any three book records whose values of the metric can
  be compared (none is NaN), the radar value of each book is that book's value divided by
  the maximum of the three books' values, times 100; when the values are exact non-negative
  numbers with a positive one among them, every radar value lies in 0..100.
\<close>

theorem normalizer_divides_by_maximum:
  assumes "list_all (comparable_column bs) structural_metrics" and "book \<in> set book_names"
  shows "\<exists>vals maxima.
      list_all2 (\<lambda>m v. metric_of bs book ''structural_analysis'' m = Inr v)
        structural_metrics vals
    \<and> list_all2 (\<lambda>m mx. \<exists>col. column_of bs m = Inr col \<and> is_maximum mx col)
        structural_metrics maxima
    \<and> normalized bs book = py_map (\<lambda>(v, mx). documented_normalized v mx) (zip vals maxima)
    \<and> (list_all (scalable_column bs) structural_metrics
        \<longrightarrow> (\<exists>rs. normalized bs book = Inr rs \<and> list_all (in_range 0 100) rs))"
proof -
  have "\<exists>rs. normalized bs book = Inr rs \<and> list_all (in_range 0 100) rs"
    if "list_all (scalable_column bs) structural_metrics"
  proof -
    from scalable_cells [OF that assms(2)] obtain rs where rs: "normalized bs book = Inr rs"
      and c: "list_all2 (\<lambda>m r. \<exists>v col x. metric_of bs book ''structural_analysis'' m = Inr v
          \<and> column_of bs m = Inr col \<and> v \<in> set col \<and> r = PyFloat (Finite x)
          \<and> 0 \<le> x \<and> x \<le> 100 \<and> (x = 100 \<longleftrightarrow> is_maximum v col))
        structural_metrics rs" by blast
    have "list_all2 (\<lambda>m r. in_range 0 100 r) structural_metrics rs"
      by (rule list_all2_mono [OF c]) auto
    then have "list_all (in_range 0 100) rs" by (rule list_all2_snd)
    with rs show ?thesis by blast
  qed
  with normalized_cells [OF assms] show ?thesis by blast
qed

theorem normalizer_divides_by_maximum_witness:
  "list_all (comparable_column load_advanced_data) structural_metrics
   \<and> ''Torah'' \<in> set book_names
   \<and> list_all (scalable_column load_advanced_data) structural_metrics
   \<and> (\<exists>vals maxima.
      list_all2 (\<lambda>m v. metric_of load_advanced_data ''Torah'' ''structural_analysis'' m = Inr v)
        structural_metrics vals
    \<and> list_all2 (\<lambda>m mx. \<exists>col. column_of load_advanced_data m = Inr col \<and> is_maximum mx col)
        structural_metrics maxima
    \<and> normalized load_advanced_data ''Torah''
        = py_map (\<lambda>(v, mx). documented_normalized v mx) (zip vals maxima)
    \<and> (\<exists>rs. normalized load_advanced_data ''Torah'' = Inr rs \<and> list_all (in_range 0 100) rs))"
proof -
  have 1: "''Torah'' \<in> set book_names" by (simp add: book_names_def)
  from normalizer_divides_by_maximum [OF static_comparable 1] static_comparable 1 static_scalable
  show ?thesis by blast
qed

text \<open>
  C6, as stated: in any metric where a book has a positive value, exactly one of the three
  radar values is 100. It fails when two books tie for the maximum: with the thematic
  cohesion of Torah set to the 9.2 of Coran, every metric has positive values and two radar
  values of thematic cohesion are 100.
\<close>

theorem tied_maximum_counterexample:
  "list_all (scalable_column tied_books) structural_metrics
   \<and> structural_metrics ! 4 = ''thematic_cohesion''
   \<and> column_of tied_books ''thematic_cohesion'' = Inr [fl (92 / 10), fl (92 / 10), fl (85 / 10)]
   \<and> py_gt (fl (92 / 10)) (PyInt 0)
   \<and> hundreds tied_books 4 = 2"
proof -
  have "list_all (scalable_column tied_books) structural_metrics"
    by (simp add: scalable_column_def tied_books_def set_field_def radar_defs eval_defs
        binary64_steps)
  moreover have "column_of tied_books ''thematic_cohesion''
      = Inr [fl (92 / 10), fl (92 / 10), fl (85 / 10)]"
    by (simp add: tied_books_def set_field_def radar_defs eval_defs)
  moreover have "py_gt (fl (92 / 10)) (PyInt 0)"
    by (simp add: py_gt_def fl_def float_lit_def binary64_steps)
  moreover have "hundreds tied_books 4 = 2"
    by (simp add: hundreds_def book_names_def tied_books_eval fl_def float_lit_def
        binary64_steps)
  ultimately show ?thesis by (simp add: structural_metrics_def)
qed

text \<open>
  C6, amended. When in each of the five structural metrics the three values are exact
  non-negative numbers with a positive one among them, then for each of these metrics the
  radar values equal to 100 are those of the books that hold the maximum of the metric:
  there are as many of them as such books, and at least one. The condition is on the five
  metrics, since the radar values of a book are computed together. In the static dataset a
  single book holds the maximum of each metric, so exactly one radar value per metric is 100.
\<close>

theorem normalizer_hundreds:
  assumes "list_all (scalable_column bs) structural_metrics" and "i < length structural_metrics"
  shows "hundreds bs i = maximum_holders bs i \<and> 1 \<le> maximum_holders bs i"
proof -
  define m where "m = structural_metrics ! i"
  have "scalable_column bs m"
    using assms by (simp add: m_def list_all_length)
  then obtain col where col: "column_of bs m = Inr col" and nn: "list_all not_nan col"
    using scalable_imp_comparable [of bs m]
    by (auto simp: comparable_column_def split: sum.splits)
  from column_three [OF col] obtain vc vt vb where c3: "col = [vc, vt, vb]"
    and vc: "metric_of bs ''Coran'' ''structural_analysis'' m = Inr vc"
    and vt: "metric_of bs ''Torah'' ''structural_analysis'' m = Inr vt"
    and vb: "metric_of bs ''Bible'' ''structural_analysis'' m = Inr vb" by blast
  note h = book_hundred [OF assms, of _ col, unfolded m_def [symmetric], OF _ col]
  have hc: "(case normalized bs ''Coran'' of Inl _ \<Rightarrow> False
            | Inr rs \<Rightarrow> i < length rs \<and> rs ! i = PyFloat (Finite 100)) \<longleftrightarrow> is_maximum vc col"
    by (rule h [OF _ vc]) (simp add: book_names_def)
  have ht: "(case normalized bs ''Torah'' of Inl _ \<Rightarrow> False
            | Inr rs \<Rightarrow> i < length rs \<and> rs ! i = PyFloat (Finite 100)) \<longleftrightarrow> is_maximum vt col"
    by (rule h [OF _ vt]) (simp add: book_names_def)
  have hb: "(case normalized bs ''Bible'' of Inl _ \<Rightarrow> False
            | Inr rs \<Rightarrow> i < length rs \<and> rs ! i = PyFloat (Finite 100)) \<longleftrightarrow> is_maximum vb col"
    by (rule h [OF _ vb]) (simp add: book_names_def)
  have eq: "hundreds bs i = maximum_holders bs i"
    by (simp add: hundreds_def maximum_holders_def book_names_def hc ht hb
        m_def [symmetric] col c3)
  have "col \<noteq> []" by (simp add: c3)
  from pymax_is_maximum [OF nn this] obtain mx where mx: "is_maximum mx col" by blast
  then have "mx \<in> set col" by (simp add: is_maximum_def)
  with mx have "filter (\<lambda>v. is_maximum v col) col \<noteq> []"
    by (auto simp: filter_empty_conv)
  then have "1 \<le> length (filter (\<lambda>v. is_maximum v col) col)"
    by (simp add: Suc_le_eq)
  then have "1 \<le> maximum_holders bs i"
    by (simp add: maximum_holders_def m_def [symmetric] col)
  with eq show ?thesis by simp
qed

theorem normalizer_hundreds_witness:
  "list_all (scalable_column load_advanced_data) structural_metrics
   \<and> 4 < length structural_metrics
   \<and> hundreds load_advanced_data 4 = maximum_holders load_advanced_data 4
   \<and> 1 \<le> maximum_holders load_advanced_data 4
   \<and> hundreds load_advanced_data 0 = 1 \<and> hundreds load_advanced_data 1 = 1
   \<and> hundreds load_advanced_data 2 = 1 \<and> hundreds load_advanced_data 3 = 1
   \<and> hundreds load_advanced_data 4 = 1"
proof -
  have 1: "4 < length structural_metrics" by (simp add: structural_metrics_def)
  from normalizer_hundreds [OF static_scalable 1] static_scalable 1 static_hundreds
  show ?thesis by simp
qed

end
